theory Spec2Isabelle
  imports Complex_Main "HOL-Library.AList" "HOL-Library.Char_ord" "HOL-Library.List_Lexorder"
    "HOL-Library.Product_Lexorder" "HOL-Library.Multiset"
begin

section \<open>Go strings\<close>

text \<open>
  A Go string is a sequence of bytes, and so is a \<^typ>\<open>string\<close>: \<open>len\<close> is
  \<^const>\<open>length\<close>, \<open>s[i:]\<close> is \<^const>\<open>drop\<close>, and \<open><\<close> on strings compares
  bytewise. An \<open>error\<close> is modelled by its message, \<open>nil\<close> by \<^const>\<open>None\<close>.
\<close>

type_synonym error = string

text \<open>
  \<open>unicode.IsSpace\<close>: the six ASCII white-space bytes, and the UTF-8 encodings of U+0085,
  U+00A0, U+1680, U+2000 to U+200A, U+2028, U+2029, U+202F, U+205F and U+3000.
\<close>

definition asciiSpace :: "string" where
  "asciiSpace = [CHR 0x09, CHR 0x0A, CHR 0x0B, CHR 0x0C, CHR 0x0D, CHR 0x20]"

definition spaceRunes :: "string list" where
  "spaceRunes = map (\<lambda>c. [c]) asciiSpace @
     [[CHR 0xC2, CHR 0x85], [CHR 0xC2, CHR 0xA0], [CHR 0xE1, CHR 0x9A, CHR 0x80]] @
     map (\<lambda>c. [CHR 0xE2, CHR 0x80, c])
       [CHR 0x80, CHR 0x81, CHR 0x82, CHR 0x83, CHR 0x84, CHR 0x85, CHR 0x86, CHR 0x87,
        CHR 0x88, CHR 0x89, CHR 0x8A, CHR 0xA8, CHR 0xA9, CHR 0xAF] @
     [[CHR 0xE2, CHR 0x81, CHR 0x9F], [CHR 0xE3, CHR 0x80, CHR 0x80]]"

text \<open>
  \<open>strings.TrimLeftFunc\<close> over a set of encoded runes: strip an encoded rune from the
  front as long as there is one.
\<close>

function trimLeftRunes :: "string list \<Rightarrow> string \<Rightarrow> string" where
  "trimLeftRunes ws s =
     (case find (\<lambda>w. w \<noteq> [] \<and> take (length w) s = w) ws of
        None \<Rightarrow> s
      | Some w \<Rightarrow> trimLeftRunes ws (drop (length w) s))"
  by pat_completeness auto
termination
proof (relation "measure (\<lambda>(ws, s). length s)")
  show "wf (measure (\<lambda>(ws, s). length s))" by simp
next
  fix ws :: "string list" and s w :: string
  assume "find (\<lambda>w. w \<noteq> [] \<and> take (length w) s = w) ws = Some w"
  then have w: "w \<noteq> []" "take (length w) s = w"
    by (auto simp: find_Some_iff)
  then have "s \<noteq> []" by auto
  with w show "((ws, drop (length w) s), (ws, s)) \<in> measure (\<lambda>(ws, s). length s)"
    by (cases w) auto
qed

declare trimLeftRunes.simps [simp del]

text \<open>
  \<open>strings.TrimSpace\<close>: white space is stripped from the front, then from the back. A
  white-space rune is recognised at the back by the reversed bytes of its encoding, as
  \<open>utf8.DecodeLastRuneInString\<close> steps back to the first byte of the last rune.
\<close>

definition TrimSpace :: "string \<Rightarrow> string" where
  "TrimSpace s = rev (trimLeftRunes (map rev spaceRunes) (rev (trimLeftRunes spaceRunes s)))"

text \<open>
  \<open>strings.ToLower\<close>: the ASCII capitals become small letters, and so do the only two
  other code points whose lower case is an ASCII letter, U+0130 (\<open>i\<close>) and U+212A (\<open>k\<close>).
  The remaining non-ASCII bytes are kept: their lower-case forms are non-ASCII again, which
  is all that \<open>slugify\<close> below depends on.
\<close>

fun ToLower :: "string \<Rightarrow> string" where
  "ToLower [] = []"
| "ToLower (c # cs) =
     (if CHR ''A'' \<le> c \<and> c \<le> CHR ''Z'' then char_of (of_char c + (32::nat)) # ToLower cs
      else if take 2 (c # cs) = [CHR 0xC4, CHR 0xB0] then CHR ''i'' # ToLower (drop 1 cs)
      else if take 3 (c # cs) = [CHR 0xE2, CHR 0x84, CHR 0xAA] then CHR ''k'' # ToLower (drop 2 cs)
      else c # ToLower cs)"

text \<open>
  The number of characters (code points) of UTF-8 text, for the statements below: every
  character has one leading byte, followed by as many continuation bytes (\<open>0x80\<close> to
  \<open>0xBF\<close>) as the leading byte announces; a stray continuation byte counts as a
  character of its own.
\<close>

fun runesFrom :: "nat \<Rightarrow> string \<Rightarrow> nat" where
  "runesFrom pending [] = 0"
| "runesFrom pending (c # cs) =
     (let b = (of_char c :: nat) in
      if 128 \<le> b \<and> b < 192 \<and> 0 < pending then runesFrom (pending - 1) cs
      else Suc (runesFrom (if 240 \<le> b \<and> b < 248 then 3 else if 224 \<le> b \<and> b < 240 then 2
                           else if 192 \<le> b \<and> b < 224 then 1 else 0) cs))"

definition characters :: "string \<Rightarrow> nat" where
  "characters s = runesFrom 0 s"

text \<open>\<open>%d\<close> of a non-negative number.\<close>

fun formatInt :: "nat \<Rightarrow> string" where
  "formatInt n =
     (if n < 10 then [char_of (48 + n)] else formatInt (n div 10) @ [char_of (48 + n mod 10)])"

declare formatInt.simps [simp del]

section \<open>The inference model registry\<close>

text \<open>\<open>inferencemodel.Model\<close>.\<close>

record Model =
  Model_ID :: string
  Model_Object :: string
  Model_Created :: int
  Model_OwnedBy :: string

subsection \<open>The cache\<close>

text \<open>
  The cache service maps keys to JSON text. A value is kept here as the Go value whose
  encoding it is; a value of another constructor stands for text that does not decode to
  the type a reader asks for. \<open>json.Marshal\<close> does not fail on the three types written.
  \<open>DeletePattern\<close>, \<open>Unlink\<close> and \<open>Set\<close> are recorded in \<open>writes\<close>, in call order.
  The expiry of entries is not modelled.
\<close>

datatype cval =
    JModels "Model list"
  | JIDs "string list"
  | JEndpoints "(string \<times> string list) list"
  | JText string

datatype cache_op = OpSet string | OpUnlink string | OpDeletePattern string

record cache =
  entries :: "string \<rightharpoonup> cval"
  writes :: "cache_op list"

definition CacheVersion :: string where
  "CacheVersion = ''v1''"

definition ModelsCacheKey :: string where
  "ModelsCacheKey = CacheVersion @ '':models:list''"

definition RegistryEndpointModelsKey :: string where
  "RegistryEndpointModelsKey = CacheVersion @ '':registry:endpoint_models''"

definition RegistryModelEndpointsKey :: string where
  "RegistryModelEndpointsKey = CacheVersion @ '':registry:model_endpoints''"

text \<open>\<open>Get\<close> returns an error for a key that is not there.\<close>

definition cache_Get :: "cache \<Rightarrow> string \<Rightarrow> cval option" where
  "cache_Get c k = entries c k"

definition cache_Set :: "cache \<Rightarrow> string \<Rightarrow> cval \<Rightarrow> error option \<times> cache" where
  "cache_Set c k v = (None, c\<lparr>entries := (entries c)(k \<mapsto> v), writes := writes c @ [OpSet k]\<rparr>)"

definition cache_Unlink :: "cache \<Rightarrow> string \<Rightarrow> error option \<times> cache" where
  "cache_Unlink c k =
     (None, c\<lparr>entries := (entries c)(k := None), writes := writes c @ [OpUnlink k]\<rparr>)"

text \<open>A key pattern: \<open>*\<close> stands for any run of bytes, \<open>?\<close> for one byte.\<close>

fun globMatch :: "string \<Rightarrow> string \<Rightarrow> bool" where
  "globMatch [] k = (k = [])"
| "globMatch (p # ps) k =
     (if p = CHR ''*'' then list_ex (\<lambda>i. globMatch ps (drop i k)) [0..<Suc (length k)]
      else case k of [] \<Rightarrow> False | c # cs \<Rightarrow> (p = CHR ''?'' \<or> p = c) \<and> globMatch ps cs)"

definition cache_DeletePattern :: "cache \<Rightarrow> string \<Rightarrow> error option \<times> cache" where
  "cache_DeletePattern c p =
     (None, c\<lparr>entries := (\<lambda>k. if globMatch p k then None else entries c k),
              writes := writes c @ [OpDeletePattern p]\<rparr>)"

text \<open>\<open>json.Unmarshal\<close> into \<open>[]string\<close>, \<open>[]inferencemodel.Model\<close> and \<open>map[string][]string\<close>.\<close>

fun unmarshalIDs :: "cval \<Rightarrow> string list option" where
  "unmarshalIDs (JIDs ids) = Some ids"
| "unmarshalIDs _ = None"

fun unmarshalModels :: "cval \<Rightarrow> Model list option" where
  "unmarshalModels (JModels ms) = Some ms"
| "unmarshalModels _ = None"

fun unmarshalEndpoints :: "cval \<Rightarrow> (string \<times> string list) list option" where
  "unmarshalEndpoints (JEndpoints m) = Some m"
| "unmarshalEndpoints _ = None"

subsection \<open>Keys\<close>

text \<open>\<open>base64.RawURLEncoding.EncodeToString\<close>: the URL-safe alphabet, no padding.\<close>

definition base64url :: string where
  "base64url = ''ABCDEFGHIJKLMNOPQRSTUVWXYZabcdefghijklmnopqrstuvwxyz0123456789-_''"

fun sextets :: "nat list \<Rightarrow> nat list" where
  "sextets (a # b # c # bs) =
     [a div 4, (a mod 4) * 16 + b div 16, (b mod 16) * 4 + c div 64, c mod 64] @ sextets bs"
| "sextets [a, b] = [a div 4, (a mod 4) * 16 + b div 16, (b mod 16) * 4]"
| "sextets [a] = [a div 4, (a mod 4) * 16]"
| "sextets [] = []"

definition sanitizeKeyPart :: "string \<Rightarrow> string" where
  "sanitizeKeyPart s = map (\<lambda>i. base64url ! i) (sextets (map of_char s))"

definition serviceKey :: "string \<Rightarrow> string" where
  "serviceKey serviceName = RegistryEndpointModelsKey @ '':'' @ sanitizeKeyPart serviceName"

subsection \<open>The registry\<close>

text \<open>
  The registry holds the cache, the inference provider and the base URL of the configured
  backend. The provider is \<open>nil\<close> (\<^const>\<open>None\<close>), or answers \<open>GetModels\<close> with an
  error (\<open>Some None\<close>) or with the backend's models.
\<close>

record InferenceModelRegistry =
  registry_provider :: "Model list option option"
  serviceBaseURL :: string

definition NewInferenceModelRegistry ::
  "Model list option option \<Rightarrow> string option \<Rightarrow> InferenceModelRegistry" where
  "NewInferenceModelRegistry p chatClient =
     \<lparr>registry_provider = p,
      serviceBaseURL = (case chatClient of None \<Rightarrow> [] | Some baseURL \<Rightarrow> TrimSpace baseURL)\<rparr>"

text \<open>A Go \<open>map[string][]string\<close>: a missing key reads as the empty slice.\<close>

definition endpointsOf :: "(string \<times> string list) list \<Rightarrow> string \<Rightarrow> string list" where
  "endpointsOf m k = (case map_of m k of None \<Rightarrow> [] | Some es \<Rightarrow> es)"

definition appendEndpoint ::
  "string \<Rightarrow> (string \<times> string list) list \<Rightarrow> string \<Rightarrow> (string \<times> string list) list" where
  "appendEndpoint k m e = AList.update k (endpointsOf m k @ [e]) m"

definition hasModelsChanged :: "cache \<Rightarrow> string \<Rightarrow> Model list \<Rightarrow> bool" where
  "hasModelsChanged c serviceName newModels =
     (case cache_Get c (serviceKey serviceName) of
        None \<Rightarrow> True
      | Some cachedIDsJSON \<Rightarrow>
          (case unmarshalIDs cachedIDsJSON of
             None \<Rightarrow> True
           | Some cachedIDs \<Rightarrow>
               if length cachedIDs \<noteq> length newModels then True
               else list_ex (\<lambda>id. id \<notin> set cachedIDs) (map Model_ID newModels)))"

definition rebuildModelToEndpointsMapping ::
  "InferenceModelRegistry \<Rightarrow> cache \<Rightarrow> error option \<times> cache" where
  "rebuildModelToEndpointsMapping r c =
     (case cache_Get c ModelsCacheKey of
        None \<Rightarrow> (Some ''redis: nil'', c)
      | Some allModelsJSON \<Rightarrow>
          (case unmarshalModels allModelsJSON of
             None \<Rightarrow> (Some ''json: cannot unmarshal'', c)
           | Some allModels \<Rightarrow>
               cache_Set c RegistryModelEndpointsKey
                 (JEndpoints
                   (fold (\<lambda>model m.
                        if TrimSpace (serviceBaseURL r) \<noteq> []
                        then appendEndpoint (Model_ID model) m (serviceBaseURL r) else m)
                      allModels []))))"

definition SetModels ::
  "InferenceModelRegistry \<Rightarrow> cache \<Rightarrow> string \<Rightarrow> Model list \<Rightarrow> error option \<times> cache" where
  "SetModels r c serviceName models =
     (if TrimSpace serviceName = [] then (Some ''service name cannot be empty'', c)
      else if \<not> hasModelsChanged c serviceName models then (None, c)
      else
        let c = snd (cache_Unlink c RegistryModelEndpointsKey);
            c = snd (cache_Unlink c ModelsCacheKey);
            c = snd (cache_DeletePattern c (RegistryEndpointModelsKey @ '':*''))
        in case cache_Set c (serviceKey serviceName) (JIDs (map Model_ID models)) of
             (Some err, c) \<Rightarrow> (Some err, c)
           | (None, c) \<Rightarrow>
               (case cache_Set c ModelsCacheKey (JModels models) of
                  (Some err, c) \<Rightarrow> (Some err, c)
                | (None, c) \<Rightarrow> rebuildModelToEndpointsMapping r c))"

definition RemoveServiceModels ::
  "InferenceModelRegistry \<Rightarrow> cache \<Rightarrow> string \<Rightarrow> error option \<times> cache" where
  "RemoveServiceModels r c serviceName =
     (if TrimSpace serviceName = [] then (Some ''service name cannot be empty'', c)
      else
        case cache_Get c (serviceKey serviceName) of
          None \<Rightarrow> (None, c)
        | Some serviceModelIDsJSON \<Rightarrow>
            (case unmarshalIDs serviceModelIDsJSON of
               None \<Rightarrow> (None, c)
             | Some serviceModelIDs \<Rightarrow>
                 (case cache_Unlink c (serviceKey serviceName) of
                    (Some err, c) \<Rightarrow> (Some err, c)
                  | (None, c) \<Rightarrow>
                      let existing =
                            (case cache_Get c ModelsCacheKey of
                               None \<Rightarrow> []
                             | Some existingJSON \<Rightarrow>
                                 (case unmarshalModels existingJSON of
                                    None \<Rightarrow> [] | Some ms \<Rightarrow> ms));
                          filtered = filter (\<lambda>m. Model_ID m \<notin> set serviceModelIDs) existing
                      in case cache_Set c ModelsCacheKey (JModels filtered) of
                           (Some err, c) \<Rightarrow> (Some err, c)
                         | (None, c) \<Rightarrow> rebuildModelToEndpointsMapping r c)))"

definition rebuildModelsFromProvider ::
  "InferenceModelRegistry \<Rightarrow> cache \<Rightarrow> Model list \<times> cache" where
  "rebuildModelsFromProvider r c =
     (case registry_provider r of
        None \<Rightarrow> ([], c)
      | Some GetModels \<Rightarrow>
          if TrimSpace (serviceBaseURL r) = [] then ([], c)
          else
            case GetModels of
              None \<Rightarrow> ([], c)
            | Some models \<Rightarrow>
                if length models > 0 then
                  let c = snd (cache_Set c ModelsCacheKey (JModels models));
                      c = snd (cache_Set c (serviceKey (serviceBaseURL r))
                                 (JIDs (map Model_ID models)));
                      c = snd (cache_Set c RegistryModelEndpointsKey
                                 (JEndpoints
                                   (fold (\<lambda>model m.
                                        appendEndpoint (Model_ID model) m (serviceBaseURL r))
                                      models [])))
                  in (models, c)
                else (models, c))"

definition GetModelToEndpoints ::
  "InferenceModelRegistry \<Rightarrow> cache \<Rightarrow> (string \<times> string list) list \<times> cache" where
  "GetModelToEndpoints r c =
     (case (case cache_Get c RegistryModelEndpointsKey of
              Some modelToEndpointsJSON \<Rightarrow> (Some modelToEndpointsJSON, c)
            | None \<Rightarrow>
                let c = snd (rebuildModelsFromProvider r c)
                in (cache_Get c RegistryModelEndpointsKey, c)) of
        (None, c) \<Rightarrow> ([], c)
      | (Some modelToEndpointsJSON, c) \<Rightarrow>
          (case unmarshalEndpoints modelToEndpointsJSON of
             None \<Rightarrow> ([], c)
           | Some modelToEndpoints \<Rightarrow> (modelToEndpoints, c)))"

section \<open>The provider registry: data\<close>

text \<open>
  \<open>ProviderKind\<close> is a string type with named constants. An identifier (\<open>uint\<close>) and a
  time stamp are natural numbers, a \<open>decimal.Decimal\<close> and a \<open>float64\<close> are the rational
  number they denote, a pointer that may be \<open>nil\<close> is an option.
\<close>

type_synonym ProviderKind = string

definition ProviderOpenAI :: ProviderKind where "ProviderOpenAI = ''openai''"
definition ProviderOpenRouter :: ProviderKind where "ProviderOpenRouter = ''openrouter''"
definition ProviderAnthropic :: ProviderKind where "ProviderAnthropic = ''anthropic''"
definition ProviderGemini :: ProviderKind where "ProviderGemini = ''gemini''"
definition ProviderMistral :: ProviderKind where "ProviderMistral = ''mistral''"
definition ProviderGroq :: ProviderKind where "ProviderGroq = ''groq''"
definition ProviderCohere :: ProviderKind where "ProviderCohere = ''cohere''"
definition ProviderOllama :: ProviderKind where "ProviderOllama = ''ollama''"
definition ProviderReplicate :: ProviderKind where "ProviderReplicate = ''replicate''"
definition ProviderAzureOpenAI :: ProviderKind where "ProviderAzureOpenAI = ''azure_openai''"
definition ProviderAWSBedrock :: ProviderKind where "ProviderAWSBedrock = ''aws_bedrock''"
definition ProviderPerplexity :: ProviderKind where "ProviderPerplexity = ''perplexity''"
definition ProviderTogetherAI :: ProviderKind where "ProviderTogetherAI = ''togetherai''"
definition ProviderHuggingFace :: ProviderKind where "ProviderHuggingFace = ''huggingface''"
definition ProviderVercelAI :: ProviderKind where "ProviderVercelAI = ''vercel_ai''"
definition ProviderDeepInfra :: ProviderKind where "ProviderDeepInfra = ''deepinfra''"
definition ProviderCustom :: ProviderKind where "ProviderCustom = ''custom''"

text \<open>
  Modelled from the spec: the constant \<open>ProviderJan\<close> is used by \<open>DefaultProvider\<close>, its
  declaration is not among the sources; it is the built-in platform-default kind.
\<close>

definition ProviderJan :: ProviderKind where "ProviderJan = ''jan''"

record Provider =
  Provider_ID :: nat
  PublicID :: string
  Slug :: string
  OrganizationID :: "nat option"
  ProjectID :: "nat option"
  DisplayName :: string
  Kind :: ProviderKind
  BaseURL :: string
  EncryptedAPIKey :: string
  APIKeyHint :: "string option"
  IsModerated :: bool
  Active :: bool
  Metadata :: "(string \<times> string) list"
  LastSyncedAt :: "nat option"
  CreatedAt :: nat
  UpdatedAt :: nat

text \<open>A dynamically typed value (\<open>any\<close>) as the registry's type switches tell it apart.\<close>

datatype any =
    ANil
  | ABool bool
  | AInt int
  | AInt64 int
  | AFloat64 rat
  | AFloat32 rat
  | AString string
  | ASlice "any list"
  | AStrings "string list"
  | AMap "(string \<times> any) list"

text \<open>
  Modelled from the spec: \<open>chatclient.Model\<close> as the registry reads it (identifier,
  canonical slug, display name and the raw vendor fields); this version of its declaration
  is not among the sources. A Go map is an association list with distinct keys, a \<open>nil\<close>
  map is \<^const>\<open>None\<close>.
\<close>

record ChatModel =
  ChatModel_ID :: string
  CanonicalSlug :: string
  ChatModel_DisplayName :: string
  Raw :: "(string \<times> any) list option"

text \<open>
  Modelled from the spec: the catalog entry and its status (\<open>init\<close>, \<open>filled\<close>,
  \<open>updated\<close>), the provider model with its pricing and token limits, and the two filters,
  with the fields the registry reads and writes; their declarations are not among the
  sources.
\<close>

datatype ModelCatalogStatus =
  ModelCatalogStatusInit | ModelCatalogStatusFilled | ModelCatalogStatusUpdated

record SupportedParameters =
  Names :: "string list"
  Default :: "(string \<times> rat option) list"

record Architecture =
  Modality :: string
  InputModalities :: "string list"
  OutputModalities :: "string list"
  Tokenizer :: string
  InstructType :: "string option"

record ModelCatalog =
  Catalog_ID :: nat
  Catalog_PublicID :: string
  Catalog_SupportedParameters :: SupportedParameters
  Catalog_Architecture :: Architecture
  Notes :: "string option"
  Catalog_IsModerated :: "bool option"
  Extras :: "(string \<times> any) list option"
  Status :: ModelCatalogStatus
  Catalog_LastSyncedAt :: "nat option"
  Catalog_CreatedAt :: nat

datatype PriceUnit =
  Per1KPromptTokens | Per1KCompletionTokens | PerRequest | PerImage | PerWebSearch
  | PerInternalReasoning

record PriceLine =
  Unit :: PriceUnit
  Amount :: int
  Currency :: string

record TokenLimits =
  ContextLength :: int
  MaxCompletionTokens :: int

record ProviderModel =
  PM_ID :: nat
  PM_PublicID :: string
  ProviderID :: nat
  ModelCatalogID :: "nat option"
  ModelKey :: string
  PM_DisplayName :: string
  Pricing :: "PriceLine list"
  PM_TokenLimits :: "TokenLimits option"
  Family :: "string option"
  SupportsImages :: bool
  SupportsEmbeddings :: bool
  SupportsReasoning :: bool
  PM_Active :: bool

record ProviderFilter =
  F_Slug :: "string option"
  F_OrganizationID :: "nat option"
  F_ProjectID :: "nat option"
  F_ProjectIDs :: "nat list option"
  F_WithoutProject :: "bool option"
  F_Kind :: "ProviderKind option"

definition ProviderFilter0 :: ProviderFilter where
  "ProviderFilter0 = \<lparr>F_Slug = None, F_OrganizationID = None, F_ProjectID = None,
     F_ProjectIDs = None, F_WithoutProject = None, F_Kind = None\<rparr>"

record ProviderModelFilter =
  F_ProviderID :: "nat option"
  F_ProviderIDs :: "nat list option"
  F_ModelKey :: "string option"
  F_Active :: "bool option"

definition ProviderModelFilter0 :: ProviderModelFilter where
  "ProviderModelFilter0 = \<lparr>F_ProviderID = None, F_ProviderIDs = None, F_ModelKey = None,
     F_Active = None\<rparr>"

text \<open>An error with its stable code: \<open>common.NewError\<close> and \<open>common.NewErrorWithMessage\<close>.\<close>

datatype common_Error = NewError error string

abbreviation NewErrorWithMessage :: "string \<Rightarrow> string \<Rightarrow> common_Error" where
  "NewErrorWithMessage \<equiv> NewError"

text \<open>
  What the registry takes from its surroundings: the default organization, the two
  environment variables, the clock, and the library calls \<open>url.ParseRequestURI\<close>,
  \<open>crypto.EncryptString\<close>, \<open>idgen.GenerateSecureID\<close> (by the number of identifiers
  drawn before), \<open>decimal.NewFromString\<close>, \<open>decimal.NewFromFloat\<close> and
  \<open>decimal.NewFromFloat32\<close>.
\<close>

record env =
  DEFAULT_ORGANIZATION :: "nat option"
  MODEL_PROVIDER_SECRET :: string
  JAN_INFERENCE_MODEL_URL :: string
  Now :: nat
  ParseRequestURI :: "string \<Rightarrow> error option"
  EncryptString :: "string \<Rightarrow> string \<Rightarrow> error + string"
  GenerateSecureID :: "nat \<Rightarrow> string \<Rightarrow> nat \<Rightarrow> error + string"
  NewFromString :: "string \<Rightarrow> error + rat"
  NewFromFloat :: "rat \<Rightarrow> rat"
  NewFromFloat32 :: "rat \<Rightarrow> rat"

section \<open>The repositories\<close>

text \<open>
  Modelled from the spec: the three repositories are interfaces whose implementation is not
  among the sources. A table is the list of its rows in insertion order; \<open>Create\<close> gives
  the row the next identifier and appends it, \<open>Update\<close> replaces the row with the same
  identifier, \<open>FindByFilter\<close> and \<open>Count\<close> select the rows that agree with every field
  set in the filter, and a page limit keeps the first rows. The providers table has
  unique indexes on the public identifier and on the slug. A project identifier in a
  provider filter selects by project presence: the spec has the registration count the
  providers that share kind, organization and project presence. Every call can be answered
  with an error: \<open>failing\<close> lists the calls that are, each with its error, and such a call
  writes nothing. \<open>drawn\<close> counts the secure identifiers generated so far.
\<close>

datatype repo_call =
    Provider_Count
  | Provider_FindByFilter
  | Provider_Create string
  | Provider_Update nat
  | ProviderModel_FindByFilter "string option"
  | ProviderModel_Create string
  | ProviderModel_Update nat
  | Catalog_FindByPublicID string
  | Catalog_Create string
  | Catalog_Update nat

record store =
  tbl_providers :: "Provider list"
  tbl_providerModels :: "ProviderModel list"
  tbl_catalogs :: "ModelCatalog list"
  drawn :: nat
  failing :: "(repo_call \<times> error) list"

definition answer :: "store \<Rightarrow> repo_call \<Rightarrow> 'a \<Rightarrow> error + 'a" where
  "answer st call result =
     (case map_of (failing st) call of Some err \<Rightarrow> Inl err | None \<Rightarrow> Inr result)"

definition agrees :: "'a option \<Rightarrow> 'a \<Rightarrow> bool" where
  "agrees want have = (case want of None \<Rightarrow> True | Some v \<Rightarrow> have = v)"

definition matchesProvider :: "ProviderFilter \<Rightarrow> Provider \<Rightarrow> bool" where
  "matchesProvider f p \<longleftrightarrow>
     agrees (F_Slug f) (Slug p) \<and>
     (case F_OrganizationID f of None \<Rightarrow> True | Some v \<Rightarrow> OrganizationID p = Some v) \<and>
     (case F_ProjectID f of None \<Rightarrow> True | Some v \<Rightarrow> ProjectID p \<noteq> None) \<and>
     (case F_ProjectIDs f of None \<Rightarrow> True
      | Some ids \<Rightarrow> (case ProjectID p of None \<Rightarrow> False | Some v \<Rightarrow> v \<in> set ids)) \<and>
     (case F_WithoutProject f of Some True \<Rightarrow> ProjectID p = None | _ \<Rightarrow> True) \<and>
     agrees (F_Kind f) (Kind p)"

definition matchesProviderModel :: "ProviderModelFilter \<Rightarrow> ProviderModel \<Rightarrow> bool" where
  "matchesProviderModel f pm \<longleftrightarrow>
     agrees (F_ProviderID f) (ProviderID pm) \<and>
     (case F_ProviderIDs f of None \<Rightarrow> True | Some ids \<Rightarrow> ProviderID pm \<in> set ids) \<and>
     agrees (F_ModelKey f) (ModelKey pm) \<and>
     agrees (F_Active f) (PM_Active pm)"

definition paginate :: "nat option \<Rightarrow> 'a list \<Rightarrow> 'a list" where
  "paginate limit rows = (case limit of None \<Rightarrow> rows | Some n \<Rightarrow> take n rows)"

definition nextID :: "nat list \<Rightarrow> nat" where
  "nextID ids = Suc (fold max ids 0)"

definition providerRepo_Count :: "store \<Rightarrow> ProviderFilter \<Rightarrow> error + nat" where
  "providerRepo_Count st f =
     answer st Provider_Count (length (filter (matchesProvider f) (tbl_providers st)))"

definition providerRepo_FindByFilter ::
  "store \<Rightarrow> ProviderFilter \<Rightarrow> nat option \<Rightarrow> error + Provider list" where
  "providerRepo_FindByFilter st f limit =
     answer st Provider_FindByFilter
       (paginate limit (filter (matchesProvider f) (tbl_providers st)))"

definition providerRepo_Create :: "env \<Rightarrow> store \<Rightarrow> Provider \<Rightarrow> error + Provider \<times> store" where
  "providerRepo_Create e st p =
     (if list_ex (\<lambda>q. PublicID q = PublicID p \<or> Slug q = Slug p) (tbl_providers st)
      then Inl ''duplicate key value violates unique constraint''
      else
        let row = p\<lparr>Provider_ID := nextID (map Provider_ID (tbl_providers st)),
                    CreatedAt := Now e, UpdatedAt := Now e\<rparr>
        in answer st (Provider_Create (Slug p))
             (row, st\<lparr>tbl_providers := tbl_providers st @ [row]\<rparr>))"

definition providerRepo_Update :: "env \<Rightarrow> store \<Rightarrow> Provider \<Rightarrow> error + Provider \<times> store" where
  "providerRepo_Update e st p =
     (let row = p\<lparr>UpdatedAt := Now e\<rparr>
      in answer st (Provider_Update (Provider_ID p))
           (row, st\<lparr>tbl_providers :=
                   map (\<lambda>q. if Provider_ID q = Provider_ID row then row else q)
                     (tbl_providers st)\<rparr>))"

definition providerModelRepo_FindByFilter ::
  "store \<Rightarrow> ProviderModelFilter \<Rightarrow> nat option \<Rightarrow> error + ProviderModel list" where
  "providerModelRepo_FindByFilter st f limit =
     answer st (ProviderModel_FindByFilter (F_ModelKey f))
       (paginate limit (filter (matchesProviderModel f) (tbl_providerModels st)))"

definition providerModelRepo_Create ::
  "store \<Rightarrow> ProviderModel \<Rightarrow> error + ProviderModel \<times> store" where
  "providerModelRepo_Create st pm =
     (let row = pm\<lparr>PM_ID := nextID (map PM_ID (tbl_providerModels st))\<rparr>
      in answer st (ProviderModel_Create (ModelKey pm))
           (row, st\<lparr>tbl_providerModels := tbl_providerModels st @ [row]\<rparr>))"

definition providerModelRepo_Update ::
  "store \<Rightarrow> ProviderModel \<Rightarrow> error + ProviderModel \<times> store" where
  "providerModelRepo_Update st pm =
     answer st (ProviderModel_Update (PM_ID pm))
       (pm, st\<lparr>tbl_providerModels :=
               map (\<lambda>q. if PM_ID q = PM_ID pm then pm else q) (tbl_providerModels st)\<rparr>)"

definition modelCatalogRepo_FindByPublicID :: "store \<Rightarrow> string \<Rightarrow> error + ModelCatalog option" where
  "modelCatalogRepo_FindByPublicID st publicID =
     answer st (Catalog_FindByPublicID publicID)
       (find (\<lambda>c. Catalog_PublicID c = publicID) (tbl_catalogs st))"

definition modelCatalogRepo_Create :: "env \<Rightarrow> store \<Rightarrow> ModelCatalog \<Rightarrow> error + ModelCatalog \<times> store" where
  "modelCatalogRepo_Create e st c =
     (let row = c\<lparr>Catalog_ID := nextID (map Catalog_ID (tbl_catalogs st)),
                    Catalog_CreatedAt := Now e\<rparr>
      in answer st (Catalog_Create (Catalog_PublicID c))
           (row, st\<lparr>tbl_catalogs := tbl_catalogs st @ [row]\<rparr>))"

definition modelCatalogRepo_Update :: "store \<Rightarrow> ModelCatalog \<Rightarrow> error + ModelCatalog \<times> store" where
  "modelCatalogRepo_Update st c =
     answer st (Catalog_Update (Catalog_ID c))
       (c, st\<lparr>tbl_catalogs :=
              map (\<lambda>q. if Catalog_ID q = Catalog_ID c then c else q) (tbl_catalogs st)\<rparr>)"

section \<open>The provider registry: helpers\<close>

definition alnum :: "char \<Rightarrow> bool" where
  "alnum c \<longleftrightarrow> (CHR ''a'' \<le> c \<and> c \<le> CHR ''z'') \<or> (CHR ''0'' \<le> c \<and> c \<le> CHR ''9'')"

text \<open>
  \<open>slugRegex.ReplaceAllString(s, "-")\<close> for the expression \<open>[^a-z0-9]+\<close>: every maximal run
  of other bytes becomes one hyphen (a rune outside ASCII is made of such bytes only).
\<close>

function replaceRuns :: "string \<Rightarrow> string" where
  "replaceRuns [] = []"
| "replaceRuns (c # cs) =
     (if alnum c then c # replaceRuns cs
      else CHR ''-'' # replaceRuns (dropWhile (\<lambda>c. \<not> alnum c) cs))"
  by pat_completeness auto
termination
  by (relation "measure length") (auto simp: length_dropWhile_le less_Suc_eq_le)

definition Trim :: "string \<Rightarrow> char \<Rightarrow> string" where
  "Trim s ch = rev (dropWhile (\<lambda>c. c = ch) (rev (dropWhile (\<lambda>c. c = ch) s)))"

definition TrimRight :: "string \<Rightarrow> char \<Rightarrow> string" where
  "TrimRight s ch = rev (dropWhile (\<lambda>c. c = ch) (rev s))"

definition Contains :: "string \<Rightarrow> string \<Rightarrow> bool" where
  "Contains s sub = list_ex (\<lambda>i. take (length sub) (drop i s) = sub) [0..<Suc (length s)]"

definition slugify :: "string \<Rightarrow> string" where
  "slugify input = Trim (replaceRuns (ToLower (TrimSpace input))) CHR ''-''"

definition slugCandidate :: "ProviderKind \<Rightarrow> string \<Rightarrow> string" where
  "slugCandidate kind name = kind @ ''-'' @ name"

definition normalizeURL :: "string \<Rightarrow> string" where
  "normalizeURL baseURL = TrimRight (TrimSpace baseURL) CHR ''/''"

text \<open>The entries are visited in the order of the list; Go leaves the order open.\<close>

definition sanitizeMetadata :: "(string \<times> string) list \<Rightarrow> (string \<times> string) list" where
  "sanitizeMetadata meta =
     (if length meta = 0 then []
      else fold (\<lambda>(k, v) cleaned.
                   if TrimSpace k = [] then cleaned
                   else AList.update (TrimSpace k) (TrimSpace v) cleaned) meta [])"

definition providerKindFromVendor :: "string \<Rightarrow> ProviderKind" where
  "providerKindFromVendor vendor =
     (let v = ToLower (TrimSpace vendor) in
      if v = ''openrouter'' then ProviderOpenRouter
      else if v = ''openai'' then ProviderOpenAI
      else if v = ''anthropic'' then ProviderAnthropic
      else if v \<in> set [''gemini'', ''google'', ''googleai''] then ProviderGemini
      else if v = ''mistral'' then ProviderMistral
      else if v = ''groq'' then ProviderGroq
      else if v = ''cohere'' then ProviderCohere
      else if v = ''ollama'' then ProviderOllama
      else if v = ''replicate'' then ProviderReplicate
      else if v \<in> set [''azure_openai'', ''azure-openai''] then ProviderAzureOpenAI
      else if v \<in> set [''aws_bedrock'', ''bedrock''] then ProviderAWSBedrock
      else if v = ''perplexity'' then ProviderPerplexity
      else if v \<in> set [''togetherai'', ''together''] then ProviderTogetherAI
      else if v = ''huggingface'' then ProviderHuggingFace
      else if v \<in> set [''vercel_ai'', ''vercel-ai'', ''vercel''] then ProviderVercelAI
      else if v = ''deepinfra'' then ProviderDeepInfra
      else ProviderCustom)"

definition apiKeyHint :: "string \<Rightarrow> string option" where
  "apiKeyHint apiKey =
     (let key = TrimSpace apiKey in
      if length key < 4 then None else Some (drop (length key - 4) key))"

definition catalogPublicID :: "ChatModel \<Rightarrow> string" where
  "catalogPublicID model =
     (if slugify (CanonicalSlug model) \<noteq> [] then slugify (CanonicalSlug model)
      else slugify (ChatModel_ID model))"

subsection \<open>Reading the raw vendor fields\<close>

text \<open>\<open>raw[key]\<close>: a missing key, and any key of a \<open>nil\<close> map, reads as \<open>nil\<close>.\<close>

definition index :: "(string \<times> any) list option \<Rightarrow> string \<Rightarrow> any" where
  "index raw key =
     (case raw of None \<Rightarrow> ANil
      | Some m \<Rightarrow> (case map_of m key of None \<Rightarrow> ANil | Some v \<Rightarrow> v))"

definition hasKey :: "(string \<times> any) list option \<Rightarrow> string \<Rightarrow> bool" where
  "hasKey raw key = (case raw of None \<Rightarrow> False | Some m \<Rightarrow> map_of m key \<noteq> None)"

text \<open>\<open>int(v)\<close> of a float and \<open>Decimal.IntPart\<close> cut the fraction off; the latter is an \<open>int64\<close>.\<close>

definition truncate :: "rat \<Rightarrow> int" where
  "truncate q = (if 0 \<le> q then \<lfloor>q\<rfloor> else \<lceil>q\<rceil>)"

definition IntPart :: "rat \<Rightarrow> int" where
  "IntPart d = (truncate d + 2 ^ 63) mod 2 ^ 64 - 2 ^ 63"

definition extractStringSlice :: "any \<Rightarrow> string list" where
  "extractStringSlice v =
     (case v of
        ASlice arr \<Rightarrow>
          concat (map (\<lambda>item. case item of AString str \<Rightarrow> [TrimSpace str] | _ \<Rightarrow> []) arr)
      | AStrings arr \<Rightarrow> map TrimSpace arr
      | _ \<Rightarrow> [])"

definition extractStringSliceFromMap :: "(string \<times> any) list option \<Rightarrow> string list \<Rightarrow> string list" where
  "extractStringSliceFromMap raw path =
     (case fold (\<lambda>key current.
                   case current of
                     Some (AMap m) \<Rightarrow> Some (index (Some m) key)
                   | _ \<Rightarrow> None)
             path (Some (case raw of None \<Rightarrow> AMap [] | Some m \<Rightarrow> AMap m)) of
        None \<Rightarrow> []
      | Some current \<Rightarrow> extractStringSlice current)"

definition getString :: "(string \<times> any) list option \<Rightarrow> string \<Rightarrow> string \<times> bool" where
  "getString raw key =
     (case raw of
        None \<Rightarrow> ([], False)
      | Some m \<Rightarrow>
          (case map_of m key of
             Some (AString str) \<Rightarrow> (TrimSpace str, True)
           | _ \<Rightarrow> ([], False)))"

definition intFromAny :: "env \<Rightarrow> any \<Rightarrow> int" where
  "intFromAny e v =
     (case v of
        AInt n \<Rightarrow> n
      | AInt64 n \<Rightarrow> n
      | AFloat64 q \<Rightarrow> truncate q
      | AFloat32 q \<Rightarrow> truncate q
      | AString str \<Rightarrow>
          if TrimSpace str = [] then 0
          else (case NewFromString e str of Inr parsed \<Rightarrow> IntPart parsed | Inl err \<Rightarrow> 0)
      | _ \<Rightarrow> 0)"

definition containsString :: "string list \<Rightarrow> string \<Rightarrow> bool" where
  "containsString xs target = list_ex (\<lambda>item. ToLower item = ToLower target) xs"

definition copyMap :: "(string \<times> any) list option \<Rightarrow> (string \<times> any) list option" where
  "copyMap source =
     (case source of
        None \<Rightarrow> None
      | Some m \<Rightarrow> Some (fold (\<lambda>(k, v) dest. AList.update k v dest) m []))"

definition decimalToMicroUSD :: "rat \<Rightarrow> int" where
  "decimalToMicroUSD d = IntPart (d * 1000000)"

definition microUSDFromAny :: "env \<Rightarrow> any \<Rightarrow> error + int" where
  "microUSDFromAny e v =
     (case v of
        AString str \<Rightarrow>
          if TrimSpace str = [] then Inl ''empty string''
          else (case NewFromString e str of
                  Inl err \<Rightarrow> Inl err
                | Inr d \<Rightarrow> Inr (decimalToMicroUSD d))
      | AFloat64 q \<Rightarrow> Inr (decimalToMicroUSD (NewFromFloat e q))
      | AFloat32 q \<Rightarrow> Inr (decimalToMicroUSD (NewFromFloat32 e q))
      | _ \<Rightarrow> Inl ''unsupported pricing type'')"

definition extractPricing :: "env \<Rightarrow> any \<Rightarrow> PriceLine list" where
  "extractPricing e v =
     (case v of
        AMap pricingMap \<Rightarrow>
          fold (\<lambda>(key, unit) pricing.
                  case map_of pricingMap key of
                    None \<Rightarrow> pricing
                  | Some amount \<Rightarrow>
                      (case microUSDFromAny e amount of
                         Inl err \<Rightarrow> pricing
                       | Inr micro \<Rightarrow>
                           pricing @ [\<lparr>Unit = unit, Amount = micro, Currency = ''USD''\<rparr>]))
            [(''prompt'', Per1KPromptTokens), (''completion'', Per1KCompletionTokens),
             (''request'', PerRequest), (''image'', PerImage), (''web_search'', PerWebSearch),
             (''internal_reasoning'', PerInternalReasoning)] []
      | _ \<Rightarrow> [])"

definition extractTokenLimits :: "env \<Rightarrow> (string \<times> any) list option \<Rightarrow> TokenLimits option" where
  "extractTokenLimits e raw =
     (let (contextLength, completionLength) =
            (case index raw ''top_provider'' of
               AMap topProvider \<Rightarrow>
                 (intFromAny e (index (Some topProvider) ''context_length''),
                  intFromAny e (index (Some topProvider) ''max_completion_tokens''))
             | _ \<Rightarrow> (0, 0));
          contextLength =
            (if contextLength = 0 then intFromAny e (index raw ''context_length'')
             else contextLength);
          completionLength =
            (if completionLength = 0 then intFromAny e (index raw ''max_completion_tokens'')
             else completionLength)
      in if contextLength = 0 \<and> completionLength = 0 then None
         else Some \<lparr>ContextLength = contextLength, MaxCompletionTokens = completionLength\<rparr>)"

definition extractFamily :: "string \<Rightarrow> string option" where
  "extractFamily modelID =
     (if modelID = [] then None
      else if Contains modelID ''/'' then Some (takeWhile (\<lambda>c. c \<noteq> CHR ''/'') modelID)
      else None)"

definition extractDefaultParameters :: "env \<Rightarrow> any \<Rightarrow> (string \<times> rat option) list" where
  "extractDefaultParameters e v =
     (case v of
        AMap params \<Rightarrow>
          fold (\<lambda>(key, raw) result.
                  case raw of
                    ANil \<Rightarrow> AList.update key None result
                  | AString str \<Rightarrow>
                      if TrimSpace str = [] then AList.update key None result
                      else (case NewFromString e str of
                              Inr d \<Rightarrow> AList.update key (Some d) result
                            | Inl err \<Rightarrow> result)
                  | AFloat64 q \<Rightarrow> AList.update key (Some (NewFromFloat e q)) result
                  | AFloat32 q \<Rightarrow> AList.update key (Some (NewFromFloat32 e q)) result
                  | _ \<Rightarrow> result)
            params []
      | _ \<Rightarrow> [])"

definition buildModelCatalogFromModel :: "env \<Rightarrow> ProviderKind \<Rightarrow> ChatModel \<Rightarrow> ModelCatalog" where
  "buildModelCatalogFromModel e kind model =
     (let status = (if kind = ProviderOpenRouter then ModelCatalogStatusFilled
                    else ModelCatalogStatusInit);
          notes = (case getString (Raw model) ''description'' of
                     (desc, ok) \<Rightarrow> if ok \<and> desc \<noteq> [] then Some desc else None);
          supportedParameters =
            \<lparr>Names = extractStringSlice (index (Raw model) ''supported_parameters''),
             Default = extractDefaultParameters e (index (Raw model) ''default_parameters'')\<rparr>;
          architecture =
            (case index (Raw model) ''architecture'' of
               AMap archMap \<Rightarrow>
                 \<lparr>Modality = fst (getString (Some archMap) ''modality''),
                  InputModalities = extractStringSlice (index (Some archMap) ''input_modalities''),
                  OutputModalities =
                    extractStringSlice (index (Some archMap) ''output_modalities''),
                  Tokenizer = fst (getString (Some archMap) ''tokenizer''),
                  InstructType =
                    (case getString (Some archMap) ''instruct_type'' of
                       (instructType, ok) \<Rightarrow>
                         if ok \<and> instructType \<noteq> [] then Some instructType else None)\<rparr>
             | _ \<Rightarrow>
                 \<lparr>Modality = [], InputModalities = [], OutputModalities = [], Tokenizer = [],
                  InstructType = None\<rparr>);
          isModerated =
            (case index (Raw model) ''top_provider'' of
               AMap topProvider \<Rightarrow>
                 (case index (Some topProvider) ''is_moderated'' of
                    ABool moderated \<Rightarrow> Some moderated
                  | _ \<Rightarrow> None)
             | _ \<Rightarrow> None);
          extras = copyMap (Raw model)
      in \<lparr>Catalog_ID = 0, Catalog_PublicID = [], Catalog_SupportedParameters = supportedParameters,
          Catalog_Architecture = architecture, Notes = notes, Catalog_IsModerated = isModerated,
          Extras = extras, Status = status, Catalog_LastSyncedAt = None,
          Catalog_CreatedAt = 0\<rparr>)"

definition updateProviderModelFromRaw ::
  "env \<Rightarrow> ProviderModel \<Rightarrow> Provider \<Rightarrow> nat option \<Rightarrow> ChatModel \<Rightarrow> ProviderModel" where
  "updateProviderModelFromRaw e pm provider catalogID model =
     pm\<lparr>ModelCatalogID := catalogID,
        PM_DisplayName := (if ChatModel_DisplayName model = [] then ChatModel_ID model
                           else ChatModel_DisplayName model),
        Pricing := extractPricing e (index (Raw model) ''pricing''),
        PM_TokenLimits := extractTokenLimits e (Raw model),
        Family := extractFamily (ChatModel_ID model),
        SupportsImages :=
          containsString
            (extractStringSliceFromMap (Raw model) [''architecture'', ''input_modalities''])
            ''image'',
        SupportsEmbeddings := Contains (ToLower (ChatModel_ID model)) ''embed'',
        SupportsReasoning :=
          containsString (extractStringSlice (index (Raw model) ''supported_parameters''))
            ''include_reasoning'',
        PM_Active := Active provider\<rparr>"

definition buildProviderModelFromRaw ::
  "env \<Rightarrow> Provider \<Rightarrow> nat option \<Rightarrow> ChatModel \<Rightarrow> ProviderModel" where
  "buildProviderModelFromRaw e provider catalogID model =
     \<lparr>PM_ID = 0, PM_PublicID = [], ProviderID = Provider_ID provider,
      ModelCatalogID = catalogID, ModelKey = ChatModel_ID model,
      PM_DisplayName = (if ChatModel_DisplayName model = [] then ChatModel_ID model
                        else ChatModel_DisplayName model),
      Pricing = extractPricing e (index (Raw model) ''pricing''),
      PM_TokenLimits = extractTokenLimits e (Raw model),
      Family = extractFamily (ChatModel_ID model),
      SupportsImages =
        containsString
          (extractStringSliceFromMap (Raw model) [''architecture'', ''input_modalities''])
          ''image'',
      SupportsEmbeddings = Contains (ToLower (ChatModel_ID model)) ''embed'',
      SupportsReasoning =
        containsString (extractStringSlice (index (Raw model) ''supported_parameters''))
          ''include_reasoning'',
      PM_Active = Active provider\<rparr>"

section \<open>The provider registry service\<close>

record RegisterProviderInput =
  In_OrganizationID :: nat
  In_ProjectID :: nat
  In_Name :: string
  In_Vendor :: string
  In_BaseURL :: string
  In_APIKey :: string
  In_Metadata :: "(string \<times> string) list"
  In_Active :: bool

record UpdateProviderInput =
  Up_Name :: "string option"
  Up_BaseURL :: "string option"
  Up_APIKey :: "string option"
  Up_Metadata :: "(string \<times> string) list option"
  Up_Active :: "bool option"

record ProviderModelSyncResult =
  SR_ProviderModel :: ProviderModel
  SR_Catalog :: ModelCatalog

record ProviderRegistrationResult =
  Res_Provider :: Provider
  Res_Models :: "ProviderModelSyncResult list"

text \<open>
  The loop of \<open>generateUniqueSlug\<close> has no bound of its own: a run that never returns is
  \<^const>\<open>None\<close>.
\<close>

partial_function (option) uniqueSlugFrom ::
  "store \<Rightarrow> string \<Rightarrow> string \<Rightarrow> nat \<Rightarrow> (error + string) option" where
  "uniqueSlugFrom st candidate slug counter =
     (case providerRepo_FindByFilter st (ProviderFilter0\<lparr>F_Slug := Some slug\<rparr>) (Some 1) of
        Inl err \<Rightarrow> Some (Inl err)
      | Inr result \<Rightarrow>
          if length result = 0 then Some (Inr slug)
          else uniqueSlugFrom st candidate (candidate @ ''-'' @ formatInt (counter + 1))
                 (counter + 1))"

declare uniqueSlugFrom.simps [code]

definition generateUniqueSlug :: "store \<Rightarrow> string \<Rightarrow> (error + string) option" where
  "generateUniqueSlug st base =
     (let candidate = (if slugify base = [] then ''provider'' else slugify base)
      in uniqueSlugFrom st candidate candidate 1)"

text \<open>
  Each operation takes the store and returns its result with the store it leaves. Reading
  the identifier of a default organization that is \<open>nil\<close> panics; the panic is the error
  with the runtime's message and no code.
\<close>

definition nilDereference :: common_Error where
  "nilDereference =
     NewError ''runtime error: invalid memory address or nil pointer dereference'' []"

definition RegisterProvider ::
  "env \<Rightarrow> store \<Rightarrow> RegisterProviderInput
     \<Rightarrow> ((common_Error + ProviderRegistrationResult) \<times> store) option" where
  "RegisterProvider e st input =
     (let name = TrimSpace (In_Name input) in
      if name = [] then
        Some (Inl (NewErrorWithMessage ''provider name is required''
                     ''64f1d0d7-4a41-49e9-a4f5-61226c0b83c5''), st)
      else
      let baseURL = TrimSpace (In_BaseURL input) in
      if baseURL = [] then
        Some (Inl (NewErrorWithMessage ''base_url is required''
                     ''9f0f7d62-4bbd-4d61-980e-dfc4d67a45f1''), st)
      else
      case ParseRequestURI e baseURL of
        Some err \<Rightarrow> Some (Inl (NewError err ''6c04d2f8-c39a-41a4-8d4a-0c2787b6ee2f''), st)
      | None \<Rightarrow>
      let kind = providerKindFromVendor (In_Vendor input) in
      case DEFAULT_ORGANIZATION e of
        None \<Rightarrow> Some (Inl nilDereference, st)
      | Some defaultID \<Rightarrow>
      let orgIDValue = (if In_OrganizationID input \<noteq> 0 then In_OrganizationID input
                        else defaultID);
          organizationID = Some orgIDValue;
          projectID = (if In_ProjectID input \<noteq> 0 then Some (In_ProjectID input) else None)
      in
      case (if kind \<noteq> ProviderCustom then
              let flt = ProviderFilter0\<lparr>F_Kind := Some kind,
                          F_OrganizationID := organizationID\<rparr>;
                  flt = (if projectID \<noteq> None then flt\<lparr>F_ProjectID := projectID\<rparr>
                         else flt\<lparr>F_WithoutProject := Some True\<rparr>)
              in case providerRepo_Count st flt of
                   Inl err \<Rightarrow> Some (NewError err ''5dc6de3c-d6df-410c-9329-48a306d0e4f7'')
                 | Inr cnt \<Rightarrow>
                     if cnt > 0 then
                       Some (NewErrorWithMessage ''provider kind already exists''
                               ''323d2e23-4a8a-4f89-b090-4d49a0b0ca12'')
                     else None
            else None) of
        Some failure \<Rightarrow> Some (Inl failure, st)
      | None \<Rightarrow>
      case generateUniqueSlug st (slugCandidate kind name) of
        None \<Rightarrow> None
      | Some (Inl err) \<Rightarrow> Some (Inl (NewError err ''6df1386c-5aa0-4105-9366-74ad8637bd1a''), st)
      | Some (Inr slug) \<Rightarrow>
      let generated = GenerateSecureID e (drawn st) ''prov'' 24;
          st = st\<lparr>drawn := Suc (drawn st)\<rparr>
      in
      case generated of
        Inl err \<Rightarrow> Some (Inl (NewError err ''2d3d6c9a-5f36-4de2-8f5f-77f8401d5dd4''), st)
      | Inr publicID \<Rightarrow>
      let plainAPIKey = TrimSpace (In_APIKey input);
          hint = apiKeyHint plainAPIKey
      in
      case (if plainAPIKey \<noteq> [] then
              let secret = TrimSpace (MODEL_PROVIDER_SECRET e) in
              if secret = [] then
                Inl (NewErrorWithMessage ''model provider secret is not configured''
                       ''2f2a5cf4-5f2d-49ca-9e60-dfb09efc3a9e'')
              else (case EncryptString e secret plainAPIKey of
                      Inl err \<Rightarrow> Inl (NewError err ''5d0d8f02-bf6f-4e1f-9f04-2a4dd21f4c81'')
                    | Inr cipher \<Rightarrow> Inr cipher)
            else Inr []) of
        Inl failure \<Rightarrow> Some (Inl failure, st)
      | Inr encryptedAPIKey \<Rightarrow>
      let metadata = sanitizeMetadata (In_Metadata input);
          provider =
            \<lparr>Provider_ID = 0, PublicID = publicID, Slug = slug,
             OrganizationID = organizationID, ProjectID = projectID, DisplayName = name,
             Kind = kind, BaseURL = normalizeURL baseURL, EncryptedAPIKey = encryptedAPIKey,
             APIKeyHint = hint, IsModerated = False, Active = In_Active input,
             Metadata = metadata, LastSyncedAt = None, CreatedAt = 0, UpdatedAt = 0\<rparr>
      in
      case providerRepo_Create e st provider of
        Inl err \<Rightarrow> Some (Inl (NewError err ''5c1db208-0f8c-4c2b-90d9-5112e9cf2a47''), st)
      | Inr (provider, st) \<Rightarrow> Some (Inr \<lparr>Res_Provider = provider, Res_Models = []\<rparr>, st))"

definition UpdateProvider ::
  "env \<Rightarrow> store \<Rightarrow> Provider \<Rightarrow> UpdateProviderInput \<Rightarrow> (common_Error + Provider) \<times> store" where
  "UpdateProvider e st provider input =
     (case (case Up_Name input of
              None \<Rightarrow> Inr provider
            | Some n \<Rightarrow>
                if TrimSpace n = [] then
                  Inl (NewErrorWithMessage ''provider name is required''
                         ''f65f5ec0-d9de-42da-8ae8-91f7f16c470a'')
                else Inr (provider\<lparr>DisplayName := TrimSpace n\<rparr>)) of
        Inl failure \<Rightarrow> (Inl failure, st)
      | Inr provider \<Rightarrow>
      case (case Up_BaseURL input of
              None \<Rightarrow> Inr provider
            | Some u \<Rightarrow>
                if TrimSpace u = [] then
                  Inl (NewErrorWithMessage ''base_url is required''
                         ''6eaf9ef7-281b-45f7-9b8d-668f6d2f5d8e'')
                else (case ParseRequestURI e (TrimSpace u) of
                        Some err \<Rightarrow> Inl (NewError err ''1fbfba8e-4fa9-4e06-8132-8d6754d88d5f'')
                      | None \<Rightarrow> Inr (provider\<lparr>BaseURL := normalizeURL (TrimSpace u)\<rparr>))) of
        Inl failure \<Rightarrow> (Inl failure, st)
      | Inr provider \<Rightarrow>
      case (case Up_APIKey input of
              None \<Rightarrow> Inr provider
            | Some k \<Rightarrow>
                let key = TrimSpace k in
                if key = [] then Inr (provider\<lparr>EncryptedAPIKey := [], APIKeyHint := None\<rparr>)
                else
                  let secret = TrimSpace (MODEL_PROVIDER_SECRET e) in
                  if secret = [] then
                    Inl (NewErrorWithMessage ''model provider secret is not configured''
                           ''ae950cb5-2f5a-4415-bc15-eec48c92610a'')
                  else (case EncryptString e secret key of
                          Inl err \<Rightarrow> Inl (NewError err ''b5bd5d1c-7811-4dd3-9f3c-43f0cb14e1f4'')
                        | Inr cipher \<Rightarrow>
                            Inr (provider\<lparr>EncryptedAPIKey := cipher,
                                   APIKeyHint := apiKeyHint key\<rparr>))) of
        Inl failure \<Rightarrow> (Inl failure, st)
      | Inr provider \<Rightarrow>
      let provider = (case Up_Metadata input of
                        None \<Rightarrow> provider
                      | Some m \<Rightarrow> provider\<lparr>Metadata := sanitizeMetadata m\<rparr>);
          provider = (case Up_Active input of
                        None \<Rightarrow> provider
                      | Some a \<Rightarrow> provider\<lparr>Active := a\<rparr>)
      in
      case providerRepo_Update e st provider of
        Inl err \<Rightarrow> (Inl (NewError err ''3f3a055d-a4d7-4dd2-8795-2b5e9b6d7677''), st)
      | Inr (provider, st) \<Rightarrow> (Inr provider, st))"

definition upsertCatalog ::
  "env \<Rightarrow> store \<Rightarrow> ProviderKind \<Rightarrow> ChatModel \<Rightarrow> (common_Error + ModelCatalog) \<times> store" where
  "upsertCatalog e st kind model =
     (let publicID = catalogPublicID model in
      case modelCatalogRepo_FindByPublicID st publicID of
        Inl err \<Rightarrow> (Inl (NewError err ''35248ec0-0c17-4b73-b2ff-67955ad9b671''), st)
      | Inr existing \<Rightarrow>
      let catalog = (buildModelCatalogFromModel e kind model)
                      \<lparr>Catalog_PublicID := publicID, Catalog_LastSyncedAt := Some (Now e)\<rparr>
      in
      case existing of
        Some existing \<Rightarrow>
          let catalog = catalog\<lparr>Catalog_ID := Catalog_ID existing,
                                Catalog_CreatedAt := Catalog_CreatedAt existing\<rparr>
          in
          if Status existing = ModelCatalogStatusFilled
             \<or> Status existing = ModelCatalogStatusUpdated
          then (Inr existing, st)
          else
            let catalog =
                  (if Status catalog = ModelCatalogStatusFilled
                      \<and> Status existing = ModelCatalogStatusUpdated
                   then catalog\<lparr>Status := Status existing\<rparr> else catalog)
            in (case modelCatalogRepo_Update st catalog of
                  Inl err \<Rightarrow> (Inl (NewError err ''9f5f9694-1a35-4cb4-b01e-0d531831df6e''), st)
                | Inr (catalog, st) \<Rightarrow> (Inr catalog, st))
      | None \<Rightarrow>
          (case modelCatalogRepo_Create e st catalog of
             Inl err \<Rightarrow> (Inl (NewError err ''b3a1c6aa-0db5-4ef8-9f68-bebc56a149d9''), st)
           | Inr (catalog, st) \<Rightarrow> (Inr catalog, st)))"

definition upsertProviderModel ::
  "env \<Rightarrow> store \<Rightarrow> Provider \<Rightarrow> ModelCatalog option \<Rightarrow> ChatModel
     \<Rightarrow> (common_Error + ProviderModel) \<times> store" where
  "upsertProviderModel e st provider catalog model =
     (let modelKey = TrimSpace (ChatModel_ID model) in
      if modelKey = [] then
        (Inl (NewErrorWithMessage ''model identifier missing''
                ''1c5c6609-6df1-41b0-8fd9-2fa337eb0050''), st)
      else
      case providerModelRepo_FindByFilter st
             (ProviderModelFilter0\<lparr>F_ProviderID := Some (Provider_ID provider),
                F_ModelKey := Some modelKey\<rparr>) (Some 1) of
        Inl err \<Rightarrow> (Inl (NewError err ''5bcbced8-1a07-48cf-8b96-2d216af7ff58''), st)
      | Inr existing \<Rightarrow>
      let catalogID = map_option Catalog_ID catalog in
      if length existing > 0 then
        let pm = updateProviderModelFromRaw e (hd existing) provider catalogID model in
        (case providerModelRepo_Update st pm of
           Inl err \<Rightarrow> (Inl (NewError err ''19a79680-ae69-4b71-9be3-daa13cbbef16''), st)
         | Inr (pm, st) \<Rightarrow> (Inr pm, st))
      else
      let generated = GenerateSecureID e (drawn st) ''pmdl'' 32;
          st = st\<lparr>drawn := Suc (drawn st)\<rparr>
      in
      case generated of
        Inl err \<Rightarrow> (Inl (NewError err ''62e9b0fb-a7f6-435c-9436-955f57843c73''), st)
      | Inr publicID \<Rightarrow>
      let pm = (buildProviderModelFromRaw e provider catalogID model)\<lparr>PM_PublicID := publicID\<rparr>
      in
      case providerModelRepo_Create st pm of
        Inl err \<Rightarrow> (Inl (NewError err ''2f0d0864-d0b0-4f4c-90c5-5e4eb2c451e5''), st)
      | Inr (pm, st) \<Rightarrow> (Inr pm, st))"

text \<open>The loop of \<open>syncModels\<close>, from the results gathered so far.\<close>

fun syncModelsFrom ::
  "env \<Rightarrow> Provider \<Rightarrow> ProviderModelSyncResult list \<Rightarrow> store \<Rightarrow> ChatModel list
     \<Rightarrow> (common_Error + ProviderModelSyncResult list) \<times> store" where
  "syncModelsFrom e provider results st [] = (Inr results, st)"
| "syncModelsFrom e provider results st (model # models) =
     (case upsertCatalog e st (Kind provider) model of
        (Inl err, st) \<Rightarrow> (Inl err, st)
      | (Inr catalog, st) \<Rightarrow>
          (case upsertProviderModel e st provider (Some catalog) model of
             (Inl err, st) \<Rightarrow> (Inl err, st)
           | (Inr providerModel, st) \<Rightarrow>
               syncModelsFrom e provider
                 (results @ [\<lparr>SR_ProviderModel = providerModel, SR_Catalog = catalog\<rparr>])
                 st models))"

definition syncModels ::
  "env \<Rightarrow> store \<Rightarrow> Provider \<Rightarrow> ChatModel list
     \<Rightarrow> (common_Error + ProviderModelSyncResult list) \<times> store" where
  "syncModels e st provider models = syncModelsFrom e provider [] st models"

definition SyncProviderModels ::
  "env \<Rightarrow> store \<Rightarrow> Provider option \<Rightarrow> ChatModel list
     \<Rightarrow> (common_Error + ProviderModelSyncResult list) \<times> store" where
  "SyncProviderModels e st provider models =
     (case provider of
        None \<Rightarrow> (Inl (NewErrorWithMessage ''provider is required''
                        ''8c278cf1-43a9-4f45-bf3c-28769b12f3fd''), st)
      | Some provider \<Rightarrow>
          (case syncModels e st provider models of
             (Inl syncErr, st) \<Rightarrow> (Inl syncErr, st)
           | (Inr syncResults, st) \<Rightarrow>
               (case providerRepo_Update e st (provider\<lparr>LastSyncedAt := Some (Now e)\<rparr>) of
                  Inl err \<Rightarrow> (Inl (NewError err ''7fce47f4-67dd-47a3-93d6-3569b9d6d4f3''), st)
                | Inr (provider, st) \<Rightarrow> (Inr syncResults, st))))"

text \<open>The closure \<open>appendUnique\<close> works on the result list and the set of identifiers seen.\<close>

fun appendUnique :: "Provider list \<Rightarrow> Provider list \<times> nat set \<Rightarrow> Provider list \<times> nat set" where
  "appendUnique [] acc = acc"
| "appendUnique (provider # items) (result, seen) =
     (if Provider_ID provider \<in> seen then appendUnique items (result, seen)
      else appendUnique items (result @ [provider], insert (Provider_ID provider) seen))"

definition ListAccessibleProviders ::
  "env \<Rightarrow> store \<Rightarrow> nat \<Rightarrow> nat list \<Rightarrow> error + Provider list" where
  "ListAccessibleProviders e st organizationID projectIDs =
     (let acc = ([], {});
          orgID = Some organizationID
      in
      case (if length projectIDs > 0 then
              (case providerRepo_FindByFilter st
                      (ProviderFilter0\<lparr>F_OrganizationID := orgID,
                         F_ProjectIDs := Some projectIDs\<rparr>) None of
                 Inl err \<Rightarrow> Inl err
               | Inr projectProviders \<Rightarrow> Inr (appendUnique projectProviders acc))
            else Inr acc) of
        Inl err \<Rightarrow> Inl err
      | Inr acc \<Rightarrow>
      case providerRepo_FindByFilter st
             (ProviderFilter0\<lparr>F_OrganizationID := orgID, F_WithoutProject := Some True\<rparr>)
             None of
        Inl err \<Rightarrow> Inl err
      | Inr orgProviders \<Rightarrow>
      let acc = appendUnique orgProviders acc in
      case DEFAULT_ORGANIZATION e of
        None \<Rightarrow> Inr (fst acc)
      | Some defaultID \<Rightarrow>
          (case providerRepo_FindByFilter st
                  (ProviderFilter0\<lparr>F_OrganizationID := Some defaultID,
                     F_WithoutProject := Some True\<rparr>) None of
             Inl err \<Rightarrow> Inl err
           | Inr globalProviders \<Rightarrow> Inr (fst (appendUnique globalProviders acc))))"

definition ListProviderModels :: "store \<Rightarrow> nat list \<Rightarrow> error + ProviderModel list" where
  "ListProviderModels st providerIDs =
     (if length providerIDs = 0 then Inr []
      else providerModelRepo_FindByFilter st
             (ProviderModelFilter0\<lparr>F_ProviderIDs := Some providerIDs, F_Active := Some True\<rparr>)
             None)"

definition GetProviderForModel ::
  "env \<Rightarrow> store \<Rightarrow> string \<Rightarrow> nat \<Rightarrow> nat list \<Rightarrow> error + Provider" where
  "GetProviderForModel e st modelKey organizationID projectIDs =
     (if TrimSpace modelKey = [] then Inl ''model key is required''
      else
      case ListAccessibleProviders e st organizationID projectIDs of
        Inl err \<Rightarrow> Inl err
      | Inr providers \<Rightarrow>
      if length providers = 0 then Inl ''no accessible providers found''
      else
      let providerIDs = map Provider_ID providers in
      if length providerIDs = 0 then Inl ''no accessible providers found''
      else
      case providerModelRepo_FindByFilter st
             (ProviderModelFilter0\<lparr>F_ProviderIDs := Some providerIDs,
                F_ModelKey := Some modelKey, F_Active := Some True\<rparr>) None of
        Inl err \<Rightarrow> Inl err
      | Inr providerModels \<Rightarrow>
      if length providerModels = 0 then
        Inl (''model '' @ [CHR 0x27] @ modelKey @ [CHR 0x27]
               @ '' not found in accessible providers'')
      else
      let hasModel = set (map ProviderID providerModels) in
      case find (\<lambda>provider. Provider_ID provider \<in> hasModel) providers of
        Some provider \<Rightarrow> Inr provider
      | None \<Rightarrow>
          Inl (''no valid provider found for model '' @ [CHR 0x27] @ modelKey @ [CHR 0x27]))"

text \<open>
  For the statements below: the repository answers a call when the call is not among the
  failing ones, a provider serves a model key when the provider-model table
  has an active row for it, and the three tiers of providers a caller has access to are the
  project-scoped providers of the caller's projects, the providers of the organization
  that have no project, and those of the default organization.
\<close>

definition answers :: "store \<Rightarrow> repo_call \<Rightarrow> bool" where
  "answers st call \<longleftrightarrow> map_of (failing st) call = None"





definition DefaultProvider :: "env \<Rightarrow> Provider" where
  "DefaultProvider e =
     \<lparr>Provider_ID = 0, PublicID = [], Slug = [], OrganizationID = None, ProjectID = None,
      DisplayName = ''Jan'', Kind = ProviderJan, BaseURL = JAN_INFERENCE_MODEL_URL e,
      EncryptedAPIKey = [], APIKeyHint = None, IsModerated = False, Active = True,
      Metadata = [], LastSyncedAt = None, CreatedAt = 0, UpdatedAt = 0\<rparr>"

definition GetProviderForModelOrDefault ::
  "env \<Rightarrow> store \<Rightarrow> string \<Rightarrow> nat \<Rightarrow> nat list \<Rightarrow> Provider \<times> bool \<times> error option" where
  "GetProviderForModelOrDefault e st modelKey organizationID projectIDs =
     (case GetProviderForModel e st modelKey organizationID projectIDs of
        Inr provider \<Rightarrow> (provider, False, None)
      | Inl err \<Rightarrow> (DefaultProvider e, True, Some err))"

section \<open>The HTTP handlers\<close>

text \<open>
  A handler is given the request context (the body and the authenticated user, if any) and
  returns what it does, in order: the provider resolutions it asks of the registry, the
  calls it sends to a backend, and the response it writes. The collaborators that are not
  among the sources are parameters: the JSON binding of the body, the project service,
  and the chat client of a provider with its two calls.
\<close>

record ChatCompletionMessage =
  Role :: string
  Content :: string

record ChatCompletionRequest =
  Req_Model :: string
  Messages :: "ChatCompletionMessage list"
  Stream :: bool

type_synonym ChatCompletionResponse = string

record ErrorResponse =
  Code :: string
  Error :: string
  ErrorInstance :: "error option"

record Project =
  Project_ID :: nat
  Project_PublicID :: string

record providerSummary =
  S_ID :: string
  S_Slug :: string
  S_Name :: string
  S_Vendor :: string
  S_BaseURL :: string
  S_Active :: bool
  S_Metadata :: "(string \<times> string) list"
  Scope :: string
  S_ProjectID :: "string option"

record providersListResponse =
  Object :: string
  Data :: "providerSummary list"

datatype body = Completion ChatCompletionResponse | ProvidersList providersListResponse

datatype effect =
    ResolveProvider string
  | BackendCall Provider ChatCompletionRequest
  | AbortWithStatusJSON nat ErrorResponse
  | JSON nat body
  | Panic string

record gin_Context =
  ctx_body :: string
  ctx_user :: "nat option"

record services =
  ShouldBindJSON :: "string \<Rightarrow> error + ChatCompletionRequest"
  projectService_Find :: "nat \<Rightarrow> nat \<Rightarrow> error + Project list"
  GetChatCompletionClient :: "Provider \<Rightarrow> error + string"
  CreateChatCompletion :: "string \<Rightarrow> string \<Rightarrow> ChatCompletionRequest \<Rightarrow> error + ChatCompletionResponse"
  StreamChatCompletionToContext :: "string \<Rightarrow> string \<Rightarrow> ChatCompletionRequest \<Rightarrow> error option"

definition StatusOK :: nat where "StatusOK = 200"
definition StatusBadRequest :: nat where "StatusBadRequest = 400"
definition StatusUnauthorized :: nat where "StatusUnauthorized = 401"
definition StatusInternalServerError :: nat where "StatusInternalServerError = 500"

subsection \<open>The completion endpoint\<close>

definition getProviderForModel ::
  "services \<Rightarrow> env \<Rightarrow> store \<Rightarrow> gin_Context \<Rightarrow> string \<Rightarrow> effect list \<times> (common_Error + Provider)" where
  "getProviderForModel svc e st reqCtx modelKey =
     (case ctx_user reqCtx of
        None \<Rightarrow> ([], Inr (DefaultProvider e))
      | Some memberID \<Rightarrow>
          (case DEFAULT_ORGANIZATION e of
             None \<Rightarrow> ([Panic ''runtime error: invalid memory address or nil pointer dereference''],
                       Inl nilDereference)
           | Some orgID \<Rightarrow>
               (case projectService_Find svc orgID memberID of
                  Inl err \<Rightarrow> ([], Inr (DefaultProvider e))
                | Inr projects \<Rightarrow>
                    (case GetProviderForModelOrDefault e st modelKey orgID
                            (map Project_ID projects) of
                       (provider, usedDefault, err) \<Rightarrow>
                         ([ResolveProvider modelKey], Inr provider)))))"

definition CallCompletionAndGetRestResponse ::
  "services \<Rightarrow> Provider \<Rightarrow> string \<Rightarrow> ChatCompletionRequest
     \<Rightarrow> effect list \<times> (common_Error + ChatCompletionResponse)" where
  "CallCompletionAndGetRestResponse svc provider apiKey request =
     (case GetChatCompletionClient svc provider of
        Inl err \<Rightarrow> ([], Inl (NewError err ''0199600c-3b65-7618-83ca-443a583d91c8''))
      | Inr chatClient \<Rightarrow>
          (case CreateChatCompletion svc chatClient apiKey request of
             Inl err \<Rightarrow>
               ([BackendCall provider request],
                Inl (NewError err ''0199600c-3b65-7618-83ca-443a583d91c9''))
           | Inr response \<Rightarrow> ([BackendCall provider request], Inr response)))"

definition StreamCompletionResponse ::
  "services \<Rightarrow> Provider \<Rightarrow> string \<Rightarrow> ChatCompletionRequest
     \<Rightarrow> effect list \<times> common_Error option" where
  "StreamCompletionResponse svc provider apiKey request =
     (case GetChatCompletionClient svc provider of
        Inl err \<Rightarrow> ([], Some (NewError err ''bc82d69c-685b-4556-9d1f-2a4a80ae8ca3''))
      | Inr chatClient \<Rightarrow>
          (case StreamChatCompletionToContext svc chatClient apiKey request of
             Some err \<Rightarrow>
               ([BackendCall provider request],
                Some (NewError err ''bc82d69c-685b-4556-9d1f-2a4a80ae8ca4''))
           | None \<Rightarrow> ([BackendCall provider request], None)))"

text \<open>A panic ends the handler; nothing is written after it.\<close>

definition panicked :: "effect list \<Rightarrow> bool" where
  "panicked done = list_ex (\<lambda>x. case x of Panic msg \<Rightarrow> True | _ \<Rightarrow> False) done"

definition errorResponse :: "common_Error \<Rightarrow> ErrorResponse" where
  "errorResponse err =
     (case err of NewError cause code \<Rightarrow>
        \<lparr>Code = code, Error = [], ErrorInstance = Some cause\<rparr>)"

definition PostCompletion :: "services \<Rightarrow> env \<Rightarrow> store \<Rightarrow> gin_Context \<Rightarrow> effect list" where
  "PostCompletion svc e st reqCtx =
     (case ShouldBindJSON svc (ctx_body reqCtx) of
        Inl err \<Rightarrow>
          [AbortWithStatusJSON StatusBadRequest
             \<lparr>Code = ''0199600b-86d3-7339-8402-8ef1c7840475'', Error = [],
              ErrorInstance = Some err\<rparr>]
      | Inr request \<Rightarrow>
      if length (Messages request) = 0 then
        [AbortWithStatusJSON StatusBadRequest
           \<lparr>Code = ''0199600f-2cbe-7518-be5c-9989cce59472'',
            Error = ''messages cannot be empty'', ErrorInstance = None\<rparr>]
      else
      case getProviderForModel svc e st reqCtx (Req_Model request) of
        (resolved, Inl providerErr) \<Rightarrow>
          if panicked resolved then resolved
          else resolved @ [AbortWithStatusJSON StatusBadRequest (errorResponse providerErr)]
      | (resolved, Inr provider) \<Rightarrow>
      if Stream request then
        (case StreamCompletionResponse svc provider [] request of
           (called, Some err) \<Rightarrow>
             resolved @ called @ [AbortWithStatusJSON StatusBadRequest (errorResponse err)]
         | (called, None) \<Rightarrow> resolved @ called)
      else
        (case CallCompletionAndGetRestResponse svc provider [] request of
           (called, Inl err) \<Rightarrow>
             resolved @ called @ [AbortWithStatusJSON StatusBadRequest (errorResponse err)]
         | (called, Inr response) \<Rightarrow>
             resolved @ called @ [JSON StatusOK (Completion response)]))"

subsection \<open>The provider listing endpoint\<close>

text \<open>
  Modelled from the spec: \<open>ResolveAccessibleProviders\<close> is not among the sources; it is
  the caller's user, the projects the user is a member of in the default organization, and
  the providers accessible from them, as the earlier version of the handler computes them
  in line.
\<close>

definition ResolveAccessibleProviders ::
  "services \<Rightarrow> env \<Rightarrow> store \<Rightarrow> gin_Context
     \<Rightarrow> effect list + (nat \<times> string) list \<times> Provider list" where
  "ResolveAccessibleProviders svc e st reqCtx =
     (case ctx_user reqCtx of
        None \<Rightarrow>
          Inl [AbortWithStatusJSON StatusUnauthorized
                 \<lparr>Code = ''b1ef40e7-9db9-477d-bb59-f3783585195d'', Error = ''user not found'',
                  ErrorInstance = None\<rparr>]
      | Some memberID \<Rightarrow>
          (case DEFAULT_ORGANIZATION e of
             None \<Rightarrow> Inl [Panic ''runtime error: invalid memory address or nil pointer dereference'']
           | Some orgID \<Rightarrow>
               (case projectService_Find svc orgID memberID of
                  Inl err \<Rightarrow>
                    Inl [AbortWithStatusJSON StatusInternalServerError
                           \<lparr>Code = ''d22f5fb5-7d09-4f61-8180-803f21722200'', Error = [],
                            ErrorInstance = Some err\<rparr>]
                | Inr projects \<Rightarrow>
                    let projectIDs = map Project_ID projects;
                        projectPublicIDs =
                          fold (\<lambda>proj m. AList.update (Project_ID proj) (Project_PublicID proj) m)
                            projects []
                    in case ListAccessibleProviders e st orgID projectIDs of
                         Inl err \<Rightarrow>
                           Inl [AbortWithStatusJSON StatusInternalServerError
                                  \<lparr>Code = ''7c88a4d8-d244-4f0d-8199-9851bc9f2df7'', Error = [],
                                   ErrorInstance = Some err\<rparr>]
                       | Inr providers \<Rightarrow> Inr (projectPublicIDs, providers))))"

definition scopeOrder :: "(string \<times> nat) list" where
  "scopeOrder = [(''jan'', 0), (''organization'', 1), (''project'', 2)]"

definition getScopeOrder :: "string \<Rightarrow> nat" where
  "getScopeOrder scope =
     (case map_of scopeOrder scope of Some order \<Rightarrow> order | None \<Rightarrow> length scopeOrder)"

definition summaryOf :: "(nat \<times> string) list \<Rightarrow> Provider \<Rightarrow> providerSummary" where
  "summaryOf projectPublicIDs provider =
     (let (scope, projectID) =
            (case ProjectID provider of
               Some pid \<Rightarrow> (''project'', map_of projectPublicIDs pid)
             | None \<Rightarrow>
                 if OrganizationID provider = None then (''jan'', None)
                 else (''organization'', None))
      in \<lparr>S_ID = PublicID provider, S_Slug = Slug provider, S_Name = DisplayName provider,
          S_Vendor = ToLower (Kind provider), S_BaseURL = BaseURL provider,
          S_Active = Active provider, S_Metadata = Metadata provider, Scope = scope,
          S_ProjectID = projectID\<rparr>)"

definition lessSummary :: "providerSummary \<Rightarrow> providerSummary \<Rightarrow> bool" where
  "lessSummary a b =
     (if Scope a = Scope b then S_Name a < S_Name b
      else getScopeOrder (Scope a) < getScopeOrder (Scope b))"

text \<open>
  \<open>sort.Slice\<close> on a short slice is an insertion sort: each element in turn moves left as
  long as it is less than its left neighbour. The sorted part is kept in reverse.
\<close>

fun siftLeft :: "('a \<Rightarrow> 'a \<Rightarrow> bool) \<Rightarrow> 'a \<Rightarrow> 'a list \<Rightarrow> 'a list" where
  "siftLeft lt x [] = [x]"
| "siftLeft lt x (y # ys) = (if lt x y then y # siftLeft lt x ys else x # y # ys)"

definition sortSlice :: "('a \<Rightarrow> 'a \<Rightarrow> bool) \<Rightarrow> 'a list \<Rightarrow> 'a list" where
  "sortSlice lt xs = rev (fold (siftLeft lt) xs [])"

definition listProviders :: "services \<Rightarrow> env \<Rightarrow> store \<Rightarrow> gin_Context \<Rightarrow> effect list" where
  "listProviders svc e st reqCtx =
     (case ResolveAccessibleProviders svc e st reqCtx of
        Inl aborted \<Rightarrow> aborted
      | Inr (projectPublicIDs, providers) \<Rightarrow>
          [JSON StatusOK
             (ProvidersList
                \<lparr>Object = ''list'',
                 Data = sortSlice lessSummary (map (summaryOf projectPublicIDs) providers)\<rparr>)])"

section \<open>Example data\<close>

definition exampleModel :: "string \<Rightarrow> Model" where
  "exampleModel i =
     \<lparr>Model_ID = i, Model_Object = ''model'', Model_Created = 0, Model_OwnedBy = ''jan''\<rparr>"

definition emptyCache :: cache where
  "emptyCache = \<lparr>entries = Map.empty, writes = []\<rparr>"

definition janRegistry :: InferenceModelRegistry where
  "janRegistry =
     \<lparr>registry_provider = Some (Some [exampleModel ''m1'']), serviceBaseURL = ''http://jan''\<rparr>"

definition exampleEnv :: env where
  "exampleEnv =
     \<lparr>DEFAULT_ORGANIZATION = Some 1, MODEL_PROVIDER_SECRET = ''secret'',
      JAN_INFERENCE_MODEL_URL = ''http://jan'', Now = 100,
      ParseRequestURI =
        (\<lambda>u. if take 4 u = ''http'' then None else Some ''invalid URI for request''),
      EncryptString = (\<lambda>secret plain. Inr (rev plain)),
      GenerateSecureID = (\<lambda>n prefix len. Inr (prefix @ ''_'' @ formatInt n)),
      NewFromString = (\<lambda>str. Inl ''cannot convert to decimal''),
      NewFromFloat = (\<lambda>q. q), NewFromFloat32 = (\<lambda>q. q)\<rparr>"

definition emptyStore :: store where
  "emptyStore =
     \<lparr>tbl_providers = [], tbl_providerModels = [], tbl_catalogs = [], drawn = 0,
      failing = []\<rparr>"

definition exampleInput :: "string \<Rightarrow> nat \<Rightarrow> string \<Rightarrow> RegisterProviderInput" where
  "exampleInput vendor project key =
     \<lparr>In_OrganizationID = 1, In_ProjectID = project, In_Name = ''Team A'', In_Vendor = vendor,
      In_BaseURL = ''https://api.example.com/v1/'', In_APIKey = key, In_Metadata = [],
      In_Active = True\<rparr>"

definition exampleUpdate :: "string \<Rightarrow> UpdateProviderInput" where
  "exampleUpdate key =
     \<lparr>Up_Name = None, Up_BaseURL = None, Up_APIKey = Some key, Up_Metadata = None,
      Up_Active = None\<rparr>"

definition registeredProvider ::
  "nat \<Rightarrow> string \<Rightarrow> nat option \<Rightarrow> string \<Rightarrow> string \<Rightarrow> string option \<Rightarrow> Provider" where
  "registeredProvider i slug project kind cipher hint =
     \<lparr>Provider_ID = i, PublicID = ''prov_'' @ formatInt (i - 1), Slug = slug,
      OrganizationID = Some 1, ProjectID = project, DisplayName = ''Team A'', Kind = kind,
      BaseURL = ''https://api.example.com/v1'', EncryptedAPIKey = cipher, APIKeyHint = hint,
      IsModerated = False, Active = True, Metadata = [], LastSyncedAt = None, CreatedAt = 100,
      UpdatedAt = 100\<rparr>"

definition chatModel :: "string \<Rightarrow> ChatModel" where
  "chatModel i = \<lparr>ChatModel_ID = i, CanonicalSlug = [], ChatModel_DisplayName = [], Raw = None\<rparr>"

definition exampleCatalog :: "nat \<Rightarrow> string \<Rightarrow> ModelCatalogStatus \<Rightarrow> nat \<Rightarrow> ModelCatalog" where
  "exampleCatalog i publicID status synced =
     \<lparr>Catalog_ID = i, Catalog_PublicID = publicID,
      Catalog_SupportedParameters = \<lparr>Names = [], Default = []\<rparr>,
      Catalog_Architecture =
        \<lparr>Modality = [], InputModalities = [], OutputModalities = [], Tokenizer = [],
         InstructType = None\<rparr>,
      Notes = None, Catalog_IsModerated = None, Extras = None, Status = status,
      Catalog_LastSyncedAt = Some synced, Catalog_CreatedAt = 50\<rparr>"

definition exampleProviderModel :: "nat \<Rightarrow> nat \<Rightarrow> nat \<Rightarrow> string \<Rightarrow> ProviderModel" where
  "exampleProviderModel i providerID catalogID key =
     \<lparr>PM_ID = i, PM_PublicID = ''pmdl_'' @ formatInt i, ProviderID = providerID,
      ModelCatalogID = Some catalogID, ModelKey = key, PM_DisplayName = key, Pricing = [],
      PM_TokenLimits = None, Family = None, SupportsImages = False,
      SupportsEmbeddings = False, SupportsReasoning = False, PM_Active = True\<rparr>"

text \<open>An environment whose generator of secure identifiers fails once, at the second draw.\<close>

definition failingEnv :: env where
  "failingEnv =
     exampleEnv\<lparr>GenerateSecureID :=
       (\<lambda>n prefix len. if n = 1 then Inl ''unexpected EOF''
                        else Inr (prefix @ ''_'' @ formatInt n))\<rparr>"

definition syncedCatalog :: "nat \<Rightarrow> string \<Rightarrow> ModelCatalog" where
  "syncedCatalog i publicID =
     (exampleCatalog i publicID ModelCatalogStatusInit 100)\<lparr>Catalog_CreatedAt := 100\<rparr>"

definition exampleStore :: store where
  "exampleStore =
     emptyStore\<lparr>tbl_providers := [registeredProvider 1 ''openai-team-a'' None ''openai'' [] None],
       drawn := 1\<rparr>"

text \<open>
  An organization-scoped provider (listed first) and a project-scoped provider of project 7,
  both with an active row for the model \<open>shared\<close>.
\<close>

definition sharedStore :: store where
  "sharedStore =
     \<lparr>tbl_providers =
        [registeredProvider 1 ''custom-p1'' None ''custom'' [] None,
         registeredProvider 2 ''custom-p2'' (Some 7) ''custom'' [] None],
      tbl_providerModels =
        [exampleProviderModel 1 1 1 ''shared'', exampleProviderModel 2 2 1 ''shared''],
      tbl_catalogs = [syncedCatalog 1 ''shared''], drawn = 4, failing = []\<rparr>"

text \<open>
  The store of the example with a database that refuses to create the catalog of \<open>b\<close> and
  the provider model of \<open>c\<close>.
\<close>

definition flakyStore :: store where
  "flakyStore =
     exampleStore\<lparr>failing := [(Catalog_Create ''b'', ''connection refused''),
                             (ProviderModel_Create ''c'', ''deadlock detected'')]\<rparr>"

text \<open>
  Collaborators of the handlers: a binding that reads three bodies, a project service for
  which the caller is a member of project 7, and a chat client that answers.
\<close>

definition exampleServices :: services where
  "exampleServices =
     \<lparr>ShouldBindJSON =
        (\<lambda>body. if body = ''no messages'' then
                   Inr \<lparr>Req_Model = ''shared'', Messages = [], Stream = False\<rparr>
                 else if body = ''no messages, stream'' then
                   Inr \<lparr>Req_Model = ''shared'', Messages = [], Stream = True\<rparr>
                 else if body = ''hello'' then
                   Inr \<lparr>Req_Model = ''shared'',
                        Messages = [\<lparr>Role = ''user'', Content = ''hello''\<rparr>], Stream = False\<rparr>
                 else Inl ''unexpected end of JSON input''),
      projectService_Find = (\<lambda>organizationID memberID. Inr [\<lparr>Project_ID = 7, Project_PublicID = ''proj_7''\<rparr>]),
      GetChatCompletionClient = (\<lambda>provider. Inr (BaseURL provider)),
      CreateChatCompletion = (\<lambda>chatClient apiKey request. Inr ''hi''),
      StreamChatCompletionToContext = (\<lambda>chatClient apiKey request. None)\<rparr>"

definition exampleContext :: "string \<Rightarrow> gin_Context" where
  "exampleContext body = \<lparr>ctx_body = body, ctx_user = Some 5\<rparr>"

text \<open>
  Three providers of organization 1: \<open>Beta\<close> without project, \<open>Alpha\<close> of project 7, and
  \<open>Alpha\<close> without project.
\<close>

definition listingStore :: store where
  "listingStore =
     emptyStore\<lparr>tbl_providers :=
       [(registeredProvider 1 ''custom-beta'' None ''custom'' [] None)\<lparr>DisplayName := ''Beta''\<rparr>,
        (registeredProvider 2 ''custom-alpha'' (Some 7) ''custom'' [] None)\<lparr>DisplayName := ''Alpha''\<rparr>,
        (registeredProvider 3 ''custom-alpha-2'' None ''custom'' [] None)\<lparr>DisplayName := ''Alpha''\<rparr>],
       drawn := 3\<rparr>"

definition exampleSummary :: "nat \<Rightarrow> string \<Rightarrow> string \<Rightarrow> string \<Rightarrow> string option \<Rightarrow> providerSummary" where
  "exampleSummary i slug name scope project =
     \<lparr>S_ID = ''prov_'' @ formatInt (i - 1), S_Slug = slug, S_Name = name, S_Vendor = ''custom'',
      S_BaseURL = ''https://api.example.com/v1'', S_Active = True, S_Metadata = [],
      Scope = scope, S_ProjectID = project\<rparr>"
section \<open>Strings: properties\<close>

lemma trimLeftRunes_fixed:
  "find (\<lambda>w. w \<noteq> [] \<and> take (length w) s = w) ws = None \<Longrightarrow> trimLeftRunes ws s = s"
  by (simp add: trimLeftRunes.simps)

lemma trimLeftRunes_done:
  "find (\<lambda>w. w \<noteq> [] \<and> take (length w) (trimLeftRunes ws s) = w) ws = None"
proof (induction ws s rule: trimLeftRunes.induct)
  case (1 ws s)
  show ?case
  proof (cases "find (\<lambda>w. w \<noteq> [] \<and> take (length w) s = w) ws")
    case None
    then show ?thesis by (simp add: trimLeftRunes_fixed)
  next
    case (Some w)
    then have "trimLeftRunes ws s = trimLeftRunes ws (drop (length w) s)"
      by (subst trimLeftRunes.simps) simp
    with "1.IH" [OF Some] show ?thesis by simp
  qed
qed

lemma trimLeftRunes_drop: "\<exists>n. trimLeftRunes ws s = drop n s"
proof (induction ws s rule: trimLeftRunes.induct)
  case (1 ws s)
  show ?case
  proof (cases "find (\<lambda>w. w \<noteq> [] \<and> take (length w) s = w) ws")
    case None
    then have "trimLeftRunes ws s = drop 0 s" by (simp add: trimLeftRunes_fixed)
    then show ?thesis ..
  next
    case (Some w)
    from "1.IH" [OF Some] obtain n where "trimLeftRunes ws (drop (length w) s) = drop n (drop (length w) s)" ..
    with Some have "trimLeftRunes ws s = drop (n + length w) s"
      by (subst trimLeftRunes.simps) (simp add: add.commute)
    then show ?thesis ..
  qed
qed

lemma TrimSpace_idem: "TrimSpace (TrimSpace s) = TrimSpace s"
proof -
  define a where "a = trimLeftRunes spaceRunes s"
  define b where "b = trimLeftRunes (map rev spaceRunes) (rev a)"
  obtain n where n: "b = drop n (rev a)" unfolding b_def using trimLeftRunes_drop by blast
  have a_done: "find (\<lambda>w. w \<noteq> [] \<and> take (length w) a = w) spaceRunes = None"
    unfolding a_def by (rule trimLeftRunes_done)
  have revb: "rev b = take (length a - n) a" by (simp add: n rev_drop)
  have "find (\<lambda>w. w \<noteq> [] \<and> take (length w) (rev b) = w) spaceRunes = None"
  proof (rule ccontr)
    assume "find (\<lambda>w. w \<noteq> [] \<and> take (length w) (rev b) = w) spaceRunes \<noteq> None"
    then obtain w where w: "w \<in> set spaceRunes" "w \<noteq> []" "take (length w) (rev b) = w"
      by (auto simp: find_None_iff)
    from w(3) have "length w \<le> length a - n"
      by (metis revb length_take min.cobounded2 min.absorb_iff2 take_take min.commute)
    with w(3) have "take (length w) a = w" by (simp add: revb min_def)
    with w(1,2) a_done show False by (auto simp: find_None_iff)
  qed
  then have 1: "trimLeftRunes spaceRunes (rev b) = rev b" by (rule trimLeftRunes_fixed)
  have 2: "trimLeftRunes (map rev spaceRunes) b = b"
    unfolding b_def by (rule trimLeftRunes_fixed) (rule trimLeftRunes_done)
  show ?thesis
    unfolding TrimSpace_def a_def [symmetric] b_def [symmetric] by (simp add: 1 2)
qed

section \<open>The model cache: properties\<close>

lemma serviceKey_neq [simp]:
  "serviceKey s \<noteq> ModelsCacheKey" "serviceKey s \<noteq> RegistryModelEndpointsKey"
  "ModelsCacheKey \<noteq> serviceKey s" "RegistryModelEndpointsKey \<noteq> serviceKey s"
  "ModelsCacheKey \<noteq> RegistryModelEndpointsKey" "RegistryModelEndpointsKey \<noteq> ModelsCacheKey"
  by (simp_all add: serviceKey_def ModelsCacheKey_def RegistryModelEndpointsKey_def
      RegistryEndpointModelsKey_def CacheVersion_def)

lemma rebuild_entries:
  "rebuildModelToEndpointsMapping r c = (e, c') \<Longrightarrow> k \<noteq> RegistryModelEndpointsKey \<Longrightarrow>
   entries c' k = entries c k"
  by (auto simp: rebuildModelToEndpointsMapping_def cache_Set_def split: option.splits)

lemma hasModelsChanged_same:
  "entries c (serviceKey S) = Some (JIDs (map Model_ID L)) \<Longrightarrow> \<not> hasModelsChanged c S L"
  by (simp add: hasModelsChanged_def cache_Get_def list_ex_iff)

lemma SetModels_writes_ids:
  assumes "SetModels r c S L = (None, c1)" "hasModelsChanged c S L"
  shows "entries c1 (serviceKey S) = Some (JIDs (map Model_ID L))"
  using assms
  by (auto simp: SetModels_def Let_def cache_Set_def cache_Unlink_def cache_DeletePattern_def
       split: if_splits dest!: rebuild_entries [where k = "serviceKey S"])

lemma TrimSpace_jan: "TrimSpace ''http://jan'' = ''http://jan''"
  by (simp add: TrimSpace_def trimLeftRunes.simps spaceRunes_def asciiSpace_def)

lemma SetModels_example:
  "fst (SetModels janRegistry emptyCache ''http://jan'' [exampleModel ''m1'']) = None"
  "writes (snd (SetModels janRegistry emptyCache ''http://jan'' [exampleModel ''m1''])) =
     [OpUnlink RegistryModelEndpointsKey, OpUnlink ModelsCacheKey,
      OpDeletePattern (RegistryEndpointModelsKey @ '':*''),
      OpSet (serviceKey ''http://jan''), OpSet ModelsCacheKey, OpSet RegistryModelEndpointsKey]"
  "entries (snd (SetModels janRegistry emptyCache ''http://jan'' [exampleModel ''m1'']))
     (serviceKey ''http://jan'') = Some (JIDs [''m1''])"
  by (simp_all add: SetModels_def TrimSpace_jan hasModelsChanged_def cache_Get_def emptyCache_def
      cache_Unlink_def cache_DeletePattern_def cache_Set_def rebuildModelToEndpointsMapping_def
      janRegistry_def exampleModel_def Let_def)

text \<open>
  C7. \<open>SetModels\<close> is idempotent on an unchanged list: when \<open>SetModels S L\<close> has returned
  \<open>nil\<close>, the same call right after it returns \<open>nil\<close> again and leaves the cache as it
  is, the record of deletions and writes included, so that it neither deletes nor writes.
\<close>

theorem SetModels_idempotent:
  assumes "SetModels r c S L = (None, c1)"
  shows "SetModels r c1 S L = (None, c1)"
proof (cases "hasModelsChanged c S L")
  case True
  from assms have ne: "TrimSpace S \<noteq> []"
    by (auto simp: SetModels_def split: if_splits)
  from SetModels_writes_ids [OF assms True] have "\<not> hasModelsChanged c1 S L"
    by (rule hasModelsChanged_same)
  with ne show ?thesis by (simp add: SetModels_def)
next
  case False
  with assms have "c1 = c" by (auto simp: SetModels_def split: if_splits)
  with assms show ?thesis by simp
qed

theorem SetModels_idempotent_witness:
  "fst (SetModels janRegistry emptyCache ''http://jan'' [exampleModel ''m1'']) = None \<and>
   writes (snd (SetModels janRegistry emptyCache ''http://jan'' [exampleModel ''m1''])) \<noteq> [] \<and>
   SetModels janRegistry
     (snd (SetModels janRegistry emptyCache ''http://jan'' [exampleModel ''m1'']))
     ''http://jan'' [exampleModel ''m1''] =
   (None, snd (SetModels janRegistry emptyCache ''http://jan'' [exampleModel ''m1'']))"
proof -
  have first: "SetModels janRegistry emptyCache ''http://jan'' [exampleModel ''m1''] =
      (None, snd (SetModels janRegistry emptyCache ''http://jan'' [exampleModel ''m1'']))"
    by (simp add: prod_eq_iff SetModels_example(1))
  show ?thesis
    using SetModels_idempotent [OF first] by (simp add: SetModels_example)
qed

lemma endpointsOf_appendEndpoint:
  "endpointsOf (appendEndpoint k' m e) k =
     (if k = k' then endpointsOf m k @ [e] else endpointsOf m k)"
  by (simp add: endpointsOf_def appendEndpoint_def update_conv)

lemma endpointsOf_fold:
  "endpointsOf (fold (\<lambda>model m. if P then appendEndpoint (Model_ID model) m base else m) ms acc) k
     = endpointsOf acc k @
       replicate (if P then length (filter (\<lambda>m. Model_ID m = k) ms) else 0) base"
proof (induction ms arbitrary: acc)
  case Nil
  show ?case by simp
next
  case (Cons m ms)
  show ?case
    by (simp add: Cons.IH endpointsOf_appendEndpoint replicate_app_Cons_same)
qed

lemma RemoveServiceModels_endpoints:
  assumes "cache_Get c (serviceKey S) = Some v" "unmarshalIDs v = Some ids"
    and "RemoveServiceModels r c S = (None, c1)"
  shows "fst (GetModelToEndpoints r c1) =
           fold (\<lambda>model m. if TrimSpace (serviceBaseURL r) \<noteq> []
                   then appendEndpoint (Model_ID model) m (serviceBaseURL r) else m)
             (filter (\<lambda>m. Model_ID m \<notin> set ids)
                (case cache_Get c ModelsCacheKey of None \<Rightarrow> []
                 | Some j \<Rightarrow> (case unmarshalModels j of None \<Rightarrow> [] | Some ms \<Rightarrow> ms))) []"
  using assms
  by (auto simp: RemoveServiceModels_def GetModelToEndpoints_def Let_def cache_Get_def
      cache_Set_def cache_Unlink_def rebuildModelToEndpointsMapping_def
      split: if_splits option.splits)

lemma RemoveServiceModels_succeeds:
  assumes "cache_Get c (serviceKey S) = Some v" "unmarshalIDs v = Some ids" "TrimSpace S \<noteq> []"
  shows "fst (RemoveServiceModels r c S) = None"
  using assms
  by (simp add: RemoveServiceModels_def Let_def cache_Get_def cache_Set_def cache_Unlink_def
      rebuildModelToEndpointsMapping_def)

text \<open>
  C1, as the code has it. When the cache holds a per-service entry for \<open>S\<close> that decodes,
  and \<open>RemoveServiceModels S\<close> returns \<open>nil\<close>, then the \<open>GetModelToEndpoints\<close> that follows
  has no endpoint at all for a model of that entry; and it returns \<open>S\<close> for a model \<open>M\<close>
  only if \<open>S\<close> is the registry's own base URL and \<open>M\<close> is not a model of that entry.
\<close>

theorem RemoveServiceModels_then_GetModelToEndpoints:
  assumes "cache_Get c (serviceKey S) = Some v" "unmarshalIDs v = Some ids"
    and "RemoveServiceModels r c S = (None, c1)"
  shows "(M \<in> set ids \<longrightarrow> endpointsOf (fst (GetModelToEndpoints r c1)) M = []) \<and>
         (S \<in> set (endpointsOf (fst (GetModelToEndpoints r c1)) M) \<longrightarrow>
            S = serviceBaseURL r \<and> M \<notin> set ids)"
proof -
  define ms where "ms = filter (\<lambda>m. Model_ID m \<notin> set ids)
     (case cache_Get c ModelsCacheKey of None \<Rightarrow> []
      | Some j \<Rightarrow> (case unmarshalModels j of None \<Rightarrow> [] | Some ms \<Rightarrow> ms))"
  have "endpointsOf (fst (GetModelToEndpoints r c1)) M =
      endpointsOf [] M @ replicate (if TrimSpace (serviceBaseURL r) \<noteq> []
                 then length (filter (\<lambda>m. Model_ID m = M) ms)
                 else 0) (serviceBaseURL r)"
    unfolding RemoveServiceModels_endpoints [OF assms] ms_def
    by (rule endpointsOf_fold)
  then have eq: "endpointsOf (fst (GetModelToEndpoints r c1)) M =
      replicate (if TrimSpace (serviceBaseURL r) \<noteq> []
                 then length (filter (\<lambda>m. Model_ID m = M) ms)
                 else 0) (serviceBaseURL r)"
    by (simp add: endpointsOf_def)
  have "M \<in> set ids \<Longrightarrow> filter (\<lambda>m. Model_ID m = M) ms = []"
    by (auto simp: filter_empty_conv ms_def)
  then show ?thesis
    unfolding eq by (auto split: if_splits)
qed

theorem RemoveServiceModels_then_GetModelToEndpoints_witness:
  "cache_Get (snd (SetModels janRegistry emptyCache ''http://jan'' [exampleModel ''m1'']))
     (serviceKey ''http://jan'') = Some (JIDs [''m1'']) \<and>
   fst (RemoveServiceModels janRegistry
          (snd (SetModels janRegistry emptyCache ''http://jan'' [exampleModel ''m1'']))
          ''http://jan'') = None \<and>
   endpointsOf
     (fst (GetModelToEndpoints janRegistry
        (snd (RemoveServiceModels janRegistry
          (snd (SetModels janRegistry emptyCache ''http://jan'' [exampleModel ''m1'']))
          ''http://jan'')))) ''m1'' = []"
proof -
  let ?c = "snd (SetModels janRegistry emptyCache ''http://jan'' [exampleModel ''m1''])"
  have get: "cache_Get ?c (serviceKey ''http://jan'') = Some (JIDs [''m1''])"
    by (simp add: cache_Get_def SetModels_example(3))
  have dec: "unmarshalIDs (JIDs [''m1'']) = Some [''m1'']" by simp
  have ok: "fst (RemoveServiceModels janRegistry ?c ''http://jan'') = None"
    by (rule RemoveServiceModels_succeeds [OF get dec]) (simp add: TrimSpace_jan)
  then have run: "RemoveServiceModels janRegistry ?c ''http://jan'' =
      (None, snd (RemoveServiceModels janRegistry ?c ''http://jan''))"
    by (simp add: prod_eq_iff)
  show ?thesis
    using RemoveServiceModels_then_GetModelToEndpoints [OF get dec run, of "''m1''"] get ok
    by simp
qed

text \<open>
  C1 does not hold as stated. On an empty cache \<open>RemoveServiceModels\<close> finds no entry for
  the configured backend and returns \<open>nil\<close> at once; the \<open>GetModelToEndpoints\<close> that follows
  misses, rebuilds from the provider, and returns that backend for the model \<open>m1\<close>.
\<close>

theorem RemoveServiceModels_noop_counterexample:
  "RemoveServiceModels janRegistry emptyCache ''http://jan'' = (None, emptyCache) \<and>
   ''http://jan'' \<in> set (endpointsOf (fst (GetModelToEndpoints janRegistry emptyCache)) ''m1'')"
  by (simp add: RemoveServiceModels_def GetModelToEndpoints_def rebuildModelsFromProvider_def
      TrimSpace_jan cache_Get_def cache_Set_def emptyCache_def janRegistry_def exampleModel_def
      Let_def appendEndpoint_def endpointsOf_def)

section \<open>The provider registry: properties\<close>

lemma RegisterProvider_hint:
  assumes "RegisterProvider e st input = Some (Inr res, st')"
  shows "Res_Provider res \<in> set (tbl_providers st') \<and>
         APIKeyHint (Res_Provider res) = apiKeyHint (TrimSpace (In_APIKey input))"
  using assms
  by (auto simp: RegisterProvider_def Let_def providerRepo_Create_def answer_def
      split: if_splits option.splits sum.splits prod.splits)

lemma UpdateProvider_hint:
  assumes "Up_APIKey upd = Some k" "UpdateProvider e st p upd = (Inr p', st')"
  shows "(\<forall>q\<in>set (tbl_providers st'). Provider_ID q = Provider_ID p \<longrightarrow> q = p') \<and>
         APIKeyHint p' = (if TrimSpace k = [] then None else apiKeyHint (TrimSpace k))"
  using assms
  by (auto simp: UpdateProvider_def Let_def providerRepo_Update_def answer_def
      split: if_splits option.splits sum.splits prod.splits)

text \<open>
  C10, as the code has it. The hint stored with a provider counts bytes: when
  \<open>RegisterProvider\<close> succeeds, and when \<open>UpdateProvider\<close> succeeds with an API key
  supplied, the stored \<open>APIKeyHint\<close> is \<open>nil\<close> if the trimmed key has fewer than 4 bytes
  and is its last 4 bytes otherwise; for a trimmed key of exactly 4 bytes the hint is the
  whole key.
\<close>

theorem apiKeyHint_stored:
  "(RegisterProvider e st input = Some (Inr res, st') \<longrightarrow>
      Res_Provider res \<in> set (tbl_providers st') \<and>
      (let key = TrimSpace (In_APIKey input) in
       APIKeyHint (Res_Provider res) =
         (if length key < 4 then None else Some (drop (length key - 4) key)) \<and>
       (length key = 4 \<longrightarrow> APIKeyHint (Res_Provider res) = Some key))) \<and>
   (Up_APIKey upd = Some k \<and> UpdateProvider e st p upd = (Inr p', st'') \<longrightarrow>
      (\<forall>q\<in>set (tbl_providers st''). Provider_ID q = Provider_ID p \<longrightarrow> q = p') \<and>
      (let key = TrimSpace k in
       APIKeyHint p' = (if length key < 4 then None else Some (drop (length key - 4) key)) \<and>
       (length key = 4 \<longrightarrow> APIKeyHint p' = Some key)))"
proof (intro conjI impI)
  assume "RegisterProvider e st input = Some (Inr res, st')"
  from RegisterProvider_hint [OF this]
  show "Res_Provider res \<in> set (tbl_providers st')"
    and "let key = TrimSpace (In_APIKey input) in
       APIKeyHint (Res_Provider res) =
         (if length key < 4 then None else Some (drop (length key - 4) key)) \<and>
       (length key = 4 \<longrightarrow> APIKeyHint (Res_Provider res) = Some key)"
    by (simp_all add: apiKeyHint_def TrimSpace_idem Let_def)
next
  assume "Up_APIKey upd = Some k \<and> UpdateProvider e st p upd = (Inr p', st'')"
  then have *: "(\<forall>q\<in>set (tbl_providers st''). Provider_ID q = Provider_ID p \<longrightarrow> q = p') \<and>
      APIKeyHint p' = (if TrimSpace k = [] then None else apiKeyHint (TrimSpace k))"
    using UpdateProvider_hint by blast
  from * show "\<forall>q\<in>set (tbl_providers st''). Provider_ID q = Provider_ID p \<longrightarrow> q = p'"
    by blast
  from * show "let key = TrimSpace k in
       APIKeyHint p' = (if length key < 4 then None else Some (drop (length key - 4) key)) \<and>
       (length key = 4 \<longrightarrow> APIKeyHint p' = Some key)"
    by (auto simp: apiKeyHint_def TrimSpace_idem Let_def)
qed

lemma RegisterProvider_example:
  "RegisterProvider exampleEnv emptyStore (exampleInput ''openai'' 0 '' abcd '') =
     Some (Inr \<lparr>Res_Provider =
                  registeredProvider 1 ''openai-team-a'' None ''openai'' ''dcba'' (Some ''abcd''),
                Res_Models = []\<rparr>,
           emptyStore\<lparr>tbl_providers :=
             [registeredProvider 1 ''openai-team-a'' None ''openai'' ''dcba'' (Some ''abcd'')],
             drawn := 1\<rparr>)"
  by code_simp

lemma UpdateProvider_example:
  "UpdateProvider exampleEnv
     (emptyStore\<lparr>tbl_providers :=
        [registeredProvider 1 ''openai-team-a'' None ''openai'' ''dcba'' (Some ''abcd'')],
        drawn := 1\<rparr>)
     (registeredProvider 1 ''openai-team-a'' None ''openai'' ''dcba'' (Some ''abcd''))
     (exampleUpdate ''xyz'') =
   (Inr (registeredProvider 1 ''openai-team-a'' None ''openai'' ''zyx'' None),
    emptyStore\<lparr>tbl_providers :=
      [registeredProvider 1 ''openai-team-a'' None ''openai'' ''zyx'' None], drawn := 1\<rparr>)"
  by code_simp

theorem apiKeyHint_stored_witness:
  "RegisterProvider exampleEnv emptyStore (exampleInput ''openai'' 0 '' abcd '') =
     Some (Inr \<lparr>Res_Provider =
                  registeredProvider 1 ''openai-team-a'' None ''openai'' ''dcba'' (Some ''abcd''),
                Res_Models = []\<rparr>,
           emptyStore\<lparr>tbl_providers :=
             [registeredProvider 1 ''openai-team-a'' None ''openai'' ''dcba'' (Some ''abcd'')],
             drawn := 1\<rparr>) \<and>
   TrimSpace '' abcd '' = ''abcd'' \<and>
   APIKeyHint (registeredProvider 1 ''openai-team-a'' None ''openai'' ''dcba'' (Some ''abcd''))
     = Some ''abcd'' \<and>
   Up_APIKey (exampleUpdate ''xyz'') = Some ''xyz'' \<and>
   UpdateProvider exampleEnv
     (emptyStore\<lparr>tbl_providers :=
        [registeredProvider 1 ''openai-team-a'' None ''openai'' ''dcba'' (Some ''abcd'')],
        drawn := 1\<rparr>)
     (registeredProvider 1 ''openai-team-a'' None ''openai'' ''dcba'' (Some ''abcd''))
     (exampleUpdate ''xyz'') =
   (Inr (registeredProvider 1 ''openai-team-a'' None ''openai'' ''zyx'' None),
    emptyStore\<lparr>tbl_providers :=
      [registeredProvider 1 ''openai-team-a'' None ''openai'' ''zyx'' None], drawn := 1\<rparr>) \<and>
   APIKeyHint (registeredProvider 1 ''openai-team-a'' None ''openai'' ''zyx'' None) = None"
proof -
  have trim: "TrimSpace '' abcd '' = ''abcd''" by code_simp
  have up: "Up_APIKey (exampleUpdate ''xyz'') = Some ''xyz''"
    by (simp add: exampleUpdate_def)
  show ?thesis
    using apiKeyHint_stored [of exampleEnv emptyStore "exampleInput ''openai'' 0 '' abcd ''"
        "\<lparr>Res_Provider =
            registeredProvider 1 ''openai-team-a'' None ''openai'' ''dcba'' (Some ''abcd''),
          Res_Models = []\<rparr>"
        "emptyStore\<lparr>tbl_providers :=
           [registeredProvider 1 ''openai-team-a'' None ''openai'' ''dcba'' (Some ''abcd'')],
           drawn := 1\<rparr>"]
      RegisterProvider_example UpdateProvider_example trim up
    by (simp add: registeredProvider_def)
qed

text \<open>
  C10 does not hold for characters. The trimmed key \<open>U+00E9 U+00E9 U+00E9\<close> has 3
  characters in 6 bytes: the registration stores a hint, its last 4 bytes. The key
  \<open>abc U+00E9\<close> has exactly 4 characters in 5 bytes: its hint is the last 3 of them, not
  the whole key.
\<close>

theorem apiKeyHint_characters_counterexample:
  "characters (TrimSpace [CHR 0xC3, CHR 0xA9, CHR 0xC3, CHR 0xA9, CHR 0xC3, CHR 0xA9]) = 3 \<and>
   RegisterProvider exampleEnv emptyStore
     (exampleInput ''openai'' 0 [CHR 0xC3, CHR 0xA9, CHR 0xC3, CHR 0xA9, CHR 0xC3, CHR 0xA9]) =
     Some (Inr \<lparr>Res_Provider =
                  registeredProvider 1 ''openai-team-a'' None ''openai''
                    [CHR 0xA9, CHR 0xC3, CHR 0xA9, CHR 0xC3, CHR 0xA9, CHR 0xC3]
                    (Some [CHR 0xC3, CHR 0xA9, CHR 0xC3, CHR 0xA9]),
                Res_Models = []\<rparr>,
           emptyStore\<lparr>tbl_providers :=
             [registeredProvider 1 ''openai-team-a'' None ''openai''
                [CHR 0xA9, CHR 0xC3, CHR 0xA9, CHR 0xC3, CHR 0xA9, CHR 0xC3]
                (Some [CHR 0xC3, CHR 0xA9, CHR 0xC3, CHR 0xA9])],
             drawn := 1\<rparr>) \<and>
   characters (TrimSpace (''abc'' @ [CHR 0xC3, CHR 0xA9])) = 4 \<and>
   apiKeyHint (''abc'' @ [CHR 0xC3, CHR 0xA9]) = Some (''bc'' @ [CHR 0xC3, CHR 0xA9])"
  by code_simp

lemma RegisterProvider_row:
  assumes "RegisterProvider e st input = Some (Inr res, st1)"
  shows "\<exists>d. DEFAULT_ORGANIZATION e = Some d \<and>
           Res_Provider res \<in> set (tbl_providers st1) \<and>
           Kind (Res_Provider res) = providerKindFromVendor (In_Vendor input) \<and>
           OrganizationID (Res_Provider res) =
             Some (if In_OrganizationID input \<noteq> 0 then In_OrganizationID input else d) \<and>
           ProjectID (Res_Provider res) =
             (if In_ProjectID input \<noteq> 0 then Some (In_ProjectID input) else None)"
  using assms
  by (auto simp: RegisterProvider_def Let_def providerRepo_Create_def answer_def
      split: if_splits option.splits sum.splits prod.splits)

lemma Count_pos:
  "p \<in> set (tbl_providers st) \<Longrightarrow> matchesProvider f p \<Longrightarrow>
   (\<exists>err. providerRepo_Count st f = Inl err) \<or>
   (\<exists>n. providerRepo_Count st f = Inr n \<and> 0 < n)"
  by (auto simp: providerRepo_Count_def answer_def filter_empty_conv split: option.splits)

lemma Count_answered:
  "map_of (failing st) Provider_Count = None \<Longrightarrow> providerRepo_Count st f \<noteq> Inl err"
  by (simp add: providerRepo_Count_def answer_def)

text \<open>
  C3, as the code has it. After a successful registration, a second registration with the
  same vendor kind other than \<open>custom\<close>, the same organization and the same project
  presence fails and leaves the store as it is, whatever the repository answers during
  the second call (\<open>fl\<close>); when its name and base URL are valid and the count query is
  answered, the failure is the conflict error \<open>provider kind already exists\<close>.
\<close>

theorem RegisterProvider_conflict:
  assumes first: "RegisterProvider e st in1 = Some (Inr res, st1)"
    and kind: "providerKindFromVendor (In_Vendor in2) = providerKindFromVendor (In_Vendor in1)"
      "providerKindFromVendor (In_Vendor in1) \<noteq> ProviderCustom"
    and org: "DEFAULT_ORGANIZATION e = Some d"
      "(if In_OrganizationID in2 \<noteq> 0 then In_OrganizationID in2 else d) =
       (if In_OrganizationID in1 \<noteq> 0 then In_OrganizationID in1 else d)"
    and project: "(In_ProjectID in2 = 0) = (In_ProjectID in1 = 0)"
  shows "(\<exists>err. RegisterProvider e (st1\<lparr>failing := fl\<rparr>) in2 =
            Some (Inl err, st1\<lparr>failing := fl\<rparr>)) \<and>
         (TrimSpace (In_Name in2) \<noteq> [] \<and> TrimSpace (In_BaseURL in2) \<noteq> [] \<and>
          ParseRequestURI e (TrimSpace (In_BaseURL in2)) = None \<and>
          map_of fl Provider_Count = None \<longrightarrow>
          RegisterProvider e (st1\<lparr>failing := fl\<rparr>) in2 =
            Some (Inl (NewErrorWithMessage ''provider kind already exists''
                         ''323d2e23-4a8a-4f89-b090-4d49a0b0ca12''), st1\<lparr>failing := fl\<rparr>))"
proof -
  from RegisterProvider_row [OF first] org(1)
  have row: "Res_Provider res \<in> set (tbl_providers (st1\<lparr>failing := fl\<rparr>))"
    "Kind (Res_Provider res) = providerKindFromVendor (In_Vendor in1)"
    "OrganizationID (Res_Provider res) =
       Some (if In_OrganizationID in1 \<noteq> 0 then In_OrganizationID in1 else d)"
    "ProjectID (Res_Provider res) =
       (if In_ProjectID in1 \<noteq> 0 then Some (In_ProjectID in1) else None)"
    by auto
  define f where "f = (if In_ProjectID in2 \<noteq> 0
      then ProviderFilter0\<lparr>F_Kind := Some (providerKindFromVendor (In_Vendor in1)),
             F_OrganizationID := Some (if In_OrganizationID in1 \<noteq> 0 then In_OrganizationID in1 else d),
             F_ProjectID := Some (In_ProjectID in2)\<rparr>
      else ProviderFilter0\<lparr>F_Kind := Some (providerKindFromVendor (In_Vendor in1)),
             F_OrganizationID := Some (if In_OrganizationID in1 \<noteq> 0 then In_OrganizationID in1 else d),
             F_WithoutProject := Some True\<rparr>)"
  have "matchesProvider f (Res_Provider res)"
    using row(2-4) project
    by (simp add: f_def matchesProvider_def ProviderFilter0_def agrees_def)
  from Count_pos [OF row(1) this]
  have n: "(\<exists>err. providerRepo_Count (st1\<lparr>failing := fl\<rparr>) f = Inl err) \<or>
      (\<exists>n. providerRepo_Count (st1\<lparr>failing := fl\<rparr>) f = Inr n \<and> 0 < n)" .
  have answered: "map_of fl Provider_Count = None \<Longrightarrow>
      providerRepo_Count (st1\<lparr>failing := fl\<rparr>) f \<noteq> Inl err" for err
    by (rule Count_answered) simp
  show ?thesis
    using n answered kind org project
    by (auto simp: RegisterProvider_def Let_def f_def split: if_splits option.splits)
qed

lemma providerKindFromVendor_openai:
  "providerKindFromVendor (In_Vendor (exampleInput ''openai'' project key)) \<noteq> ProviderCustom"
  by code_simp

lemma RegisterProvider_project_example:
  "RegisterProvider exampleEnv emptyStore (exampleInput ''openai'' 1 []) =
     Some (Inr \<lparr>Res_Provider = registeredProvider 1 ''openai-team-a'' (Some 1) ''openai'' [] None,
                Res_Models = []\<rparr>,
           emptyStore\<lparr>tbl_providers :=
             [registeredProvider 1 ''openai-team-a'' (Some 1) ''openai'' [] None], drawn := 1\<rparr>)"
  by code_simp

theorem RegisterProvider_conflict_witness:
  "RegisterProvider exampleEnv emptyStore (exampleInput ''openai'' 1 []) =
     Some (Inr \<lparr>Res_Provider = registeredProvider 1 ''openai-team-a'' (Some 1) ''openai'' [] None,
                Res_Models = []\<rparr>,
           emptyStore\<lparr>tbl_providers :=
             [registeredProvider 1 ''openai-team-a'' (Some 1) ''openai'' [] None], drawn := 1\<rparr>) \<and>
   RegisterProvider exampleEnv
     (emptyStore\<lparr>tbl_providers :=
        [registeredProvider 1 ''openai-team-a'' (Some 1) ''openai'' [] None], drawn := 1\<rparr>)
     (exampleInput ''openai'' 2 []) =
     Some (Inl (NewErrorWithMessage ''provider kind already exists''
                  ''323d2e23-4a8a-4f89-b090-4d49a0b0ca12''),
           emptyStore\<lparr>tbl_providers :=
             [registeredProvider 1 ''openai-team-a'' (Some 1) ''openai'' [] None], drawn := 1\<rparr>)"
proof -
  have kind: "providerKindFromVendor (In_Vendor (exampleInput ''openai'' 2 [])) =
      providerKindFromVendor (In_Vendor (exampleInput ''openai'' 1 []))"
    by (simp add: exampleInput_def)
  have org: "DEFAULT_ORGANIZATION exampleEnv = Some 1" by (simp add: exampleEnv_def)
  have same: "(if In_OrganizationID (exampleInput ''openai'' 2 []) \<noteq> 0
       then In_OrganizationID (exampleInput ''openai'' 2 []) else 1) =
      (if In_OrganizationID (exampleInput ''openai'' 1 []) \<noteq> 0
       then In_OrganizationID (exampleInput ''openai'' 1 []) else 1)"
    "(In_ProjectID (exampleInput ''openai'' 2 []) = 0) =
     (In_ProjectID (exampleInput ''openai'' 1 []) = 0)"
    by (simp_all add: exampleInput_def)
  have valid: "TrimSpace (In_Name (exampleInput ''openai'' 2 [])) \<noteq> [] \<and>
      TrimSpace (In_BaseURL (exampleInput ''openai'' 2 [])) \<noteq> [] \<and>
      ParseRequestURI exampleEnv (TrimSpace (In_BaseURL (exampleInput ''openai'' 2 []))) = None"
    by code_simp
  have conflict: "RegisterProvider exampleEnv
     (emptyStore\<lparr>tbl_providers :=
        [registeredProvider 1 ''openai-team-a'' (Some 1) ''openai'' [] None], drawn := 1\<rparr>)
     (exampleInput ''openai'' 2 []) =
     Some (Inl (NewErrorWithMessage ''provider kind already exists''
                  ''323d2e23-4a8a-4f89-b090-4d49a0b0ca12''),
           emptyStore\<lparr>tbl_providers :=
             [registeredProvider 1 ''openai-team-a'' (Some 1) ''openai'' [] None], drawn := 1\<rparr>)"
    using RegisterProvider_conflict [OF RegisterProvider_project_example kind
        providerKindFromVendor_openai org same, of "[]"] valid
    by (simp add: emptyStore_def)
  show ?thesis
    using RegisterProvider_project_example conflict by (rule conjI)
qed

text \<open>
  C3 does not hold for every second call: the name and the base URL are validated before
  the count. A second registration of the same kind, organization and project whose name
  is blank fails with \<open>provider name is required\<close>, which is not the conflict error.
\<close>

theorem RegisterProvider_blank_name_counterexample:
  "RegisterProvider exampleEnv emptyStore (exampleInput ''openai'' 1 []) =
     Some (Inr \<lparr>Res_Provider = registeredProvider 1 ''openai-team-a'' (Some 1) ''openai'' [] None,
                Res_Models = []\<rparr>,
           emptyStore\<lparr>tbl_providers :=
             [registeredProvider 1 ''openai-team-a'' (Some 1) ''openai'' [] None], drawn := 1\<rparr>) \<and>
   RegisterProvider exampleEnv
     (emptyStore\<lparr>tbl_providers :=
        [registeredProvider 1 ''openai-team-a'' (Some 1) ''openai'' [] None], drawn := 1\<rparr>)
     ((exampleInput ''openai'' 1 [])\<lparr>In_Name := ''  ''\<rparr>) =
     Some (Inl (NewErrorWithMessage ''provider name is required''
                  ''64f1d0d7-4a41-49e9-a4f5-61226c0b83c5''),
           emptyStore\<lparr>tbl_providers :=
             [registeredProvider 1 ''openai-team-a'' (Some 1) ''openai'' [] None], drawn := 1\<rparr>) \<and>
   NewErrorWithMessage ''provider name is required'' ''64f1d0d7-4a41-49e9-a4f5-61226c0b83c5''
     \<noteq> NewErrorWithMessage ''provider kind already exists''
         ''323d2e23-4a8a-4f89-b090-4d49a0b0ca12''"
  by code_simp

lemma find_catalog:
  "find P rows = Some ex \<Longrightarrow> ex \<in> set rows"
  by (auto simp: find_Some_iff)

text \<open>
  C2. A catalog entry that is \<open>filled\<close> or \<open>updated\<close> is returned as it is by
  \<open>upsertCatalog\<close>, whatever the incoming data, and the store is not written; an existing
  entry is rewritten only while its status is \<open>init\<close>; and, identifiers being distinct, every
  entry that is not \<open>init\<close> is still in the table after \<open>upsertCatalog\<close> of any model.
\<close>

theorem upsertCatalog_monotonic:
  "(modelCatalogRepo_FindByPublicID st (catalogPublicID model) = Inr (Some existing) \<and>
      (Status existing = ModelCatalogStatusFilled \<or> Status existing = ModelCatalogStatusUpdated)
      \<longrightarrow> upsertCatalog e st kind model = (Inr existing, st)) \<and>
   (modelCatalogRepo_FindByPublicID st (catalogPublicID model) = Inr (Some existing) \<and>
      snd (upsertCatalog e st kind model) \<noteq> st
      \<longrightarrow> Status existing = ModelCatalogStatusInit) \<and>
   (distinct (map Catalog_ID (tbl_catalogs st)) \<and> c \<in> set (tbl_catalogs st) \<and>
      Status c \<noteq> ModelCatalogStatusInit
      \<longrightarrow> c \<in> set (tbl_catalogs (snd (upsertCatalog e st kind model))))"
proof (intro conjI impI)
  assume "modelCatalogRepo_FindByPublicID st (catalogPublicID model) = Inr (Some existing) \<and>
      (Status existing = ModelCatalogStatusFilled \<or> Status existing = ModelCatalogStatusUpdated)"
  then show "upsertCatalog e st kind model = (Inr existing, st)"
    by (auto simp: upsertCatalog_def Let_def)
next
  assume a: "modelCatalogRepo_FindByPublicID st (catalogPublicID model) = Inr (Some existing) \<and>
      snd (upsertCatalog e st kind model) \<noteq> st"
  show "Status existing = ModelCatalogStatusInit"
  proof (cases "Status existing")
    case ModelCatalogStatusInit
    then show ?thesis .
  next
    case ModelCatalogStatusFilled
    with a show ?thesis by (auto simp: upsertCatalog_def Let_def)
  next
    case ModelCatalogStatusUpdated
    with a show ?thesis by (auto simp: upsertCatalog_def Let_def)
  qed
next
  assume a: "distinct (map Catalog_ID (tbl_catalogs st)) \<and> c \<in> set (tbl_catalogs st) \<and>
      Status c \<noteq> ModelCatalogStatusInit"
  show "c \<in> set (tbl_catalogs (snd (upsertCatalog e st kind model)))"
  proof (cases "find (\<lambda>c. Catalog_PublicID c = catalogPublicID model) (tbl_catalogs st)")
    case None
    with a show ?thesis
      by (simp add: upsertCatalog_def Let_def modelCatalogRepo_FindByPublicID_def
          modelCatalogRepo_Create_def answer_def split: option.splits)
  next
    case (Some ex)
    then have ex: "ex \<in> set (tbl_catalogs st)" by (rule find_catalog)
    show ?thesis
    proof (cases "Status ex = ModelCatalogStatusInit")
      case False
      with Some a show ?thesis
        by (cases "Status ex")
          (simp_all add: upsertCatalog_def Let_def modelCatalogRepo_FindByPublicID_def
            answer_def split: option.splits)
    next
      case True
      with a have "c \<noteq> ex" by auto
      with a ex have "Catalog_ID c \<noteq> Catalog_ID ex"
        by (auto simp: distinct_map inj_on_def)
      with Some True a show ?thesis
        by (auto simp: upsertCatalog_def Let_def modelCatalogRepo_FindByPublicID_def
            modelCatalogRepo_Update_def answer_def image_iff split: option.splits
            intro!: bexI [of _ c])
    qed
  qed
qed

theorem upsertCatalog_monotonic_witness:
  "modelCatalogRepo_FindByPublicID
     (emptyStore\<lparr>tbl_catalogs := [exampleCatalog 1 ''gpt-4'' ModelCatalogStatusFilled 60]\<rparr>)
     (catalogPublicID (chatModel ''GPT 4'')) =
     Inr (Some (exampleCatalog 1 ''gpt-4'' ModelCatalogStatusFilled 60)) \<and>
   upsertCatalog exampleEnv
     (emptyStore\<lparr>tbl_catalogs := [exampleCatalog 1 ''gpt-4'' ModelCatalogStatusFilled 60]\<rparr>)
     ProviderOpenAI (chatModel ''GPT 4'') =
     (Inr (exampleCatalog 1 ''gpt-4'' ModelCatalogStatusFilled 60),
      emptyStore\<lparr>tbl_catalogs := [exampleCatalog 1 ''gpt-4'' ModelCatalogStatusFilled 60]\<rparr>) \<and>
   modelCatalogRepo_FindByPublicID
     (emptyStore\<lparr>tbl_catalogs := [exampleCatalog 1 ''gpt-4'' ModelCatalogStatusInit 60]\<rparr>)
     (catalogPublicID (chatModel ''GPT 4'')) =
     Inr (Some (exampleCatalog 1 ''gpt-4'' ModelCatalogStatusInit 60)) \<and>
   tbl_catalogs (snd (upsertCatalog exampleEnv
     (emptyStore\<lparr>tbl_catalogs := [exampleCatalog 1 ''gpt-4'' ModelCatalogStatusInit 60]\<rparr>)
     ProviderOpenAI (chatModel ''GPT 4''))) =
     [exampleCatalog 1 ''gpt-4'' ModelCatalogStatusInit 100] \<and>
   distinct (map Catalog_ID [exampleCatalog 1 ''gpt-4'' ModelCatalogStatusFilled 60]) \<and>
   exampleCatalog 1 ''gpt-4'' ModelCatalogStatusFilled 60 \<in>
     set (tbl_catalogs (snd (upsertCatalog exampleEnv
       (emptyStore\<lparr>tbl_catalogs := [exampleCatalog 1 ''gpt-4'' ModelCatalogStatusFilled 60]\<rparr>)
       ProviderOpenAI (chatModel ''GPT 5''))))"
proof -
  let ?filled = "emptyStore\<lparr>tbl_catalogs := [exampleCatalog 1 ''gpt-4'' ModelCatalogStatusFilled 60]\<rparr>"
  let ?init = "emptyStore\<lparr>tbl_catalogs := [exampleCatalog 1 ''gpt-4'' ModelCatalogStatusInit 60]\<rparr>"
  have found: "modelCatalogRepo_FindByPublicID ?filled (catalogPublicID (chatModel ''GPT 4'')) =
      Inr (Some (exampleCatalog 1 ''gpt-4'' ModelCatalogStatusFilled 60))"
    by code_simp
  have found': "modelCatalogRepo_FindByPublicID ?init (catalogPublicID (chatModel ''GPT 4'')) =
      Inr (Some (exampleCatalog 1 ''gpt-4'' ModelCatalogStatusInit 60))"
    by code_simp
  have rewritten: "tbl_catalogs (snd (upsertCatalog exampleEnv ?init ProviderOpenAI
      (chatModel ''GPT 4''))) = [exampleCatalog 1 ''gpt-4'' ModelCatalogStatusInit 100]"
    by code_simp
  then have changed: "snd (upsertCatalog exampleEnv ?init ProviderOpenAI (chatModel ''GPT 4''))
      \<noteq> ?init"
    by (auto simp: emptyStore_def exampleCatalog_def)
  have status: "Status (exampleCatalog 1 ''gpt-4'' ModelCatalogStatusFilled 60) =
      ModelCatalogStatusFilled"
    "Status (exampleCatalog 1 ''gpt-4'' ModelCatalogStatusInit 60) = ModelCatalogStatusInit"
    by (simp_all add: exampleCatalog_def)
  have rows: "distinct (map Catalog_ID (tbl_catalogs ?filled))"
    "exampleCatalog 1 ''gpt-4'' ModelCatalogStatusFilled 60 \<in> set (tbl_catalogs ?filled)"
    by (simp_all add: emptyStore_def)
  have r1: "upsertCatalog exampleEnv ?filled ProviderOpenAI (chatModel ''GPT 4'') =
      (Inr (exampleCatalog 1 ''gpt-4'' ModelCatalogStatusFilled 60), ?filled)"
    using upsertCatalog_monotonic [of ?filled "chatModel ''GPT 4''"
        "exampleCatalog 1 ''gpt-4'' ModelCatalogStatusFilled 60" exampleEnv ProviderOpenAI
        "exampleCatalog 1 ''gpt-4'' ModelCatalogStatusFilled 60"] found status(1)
    by blast
  have r2: "Status (exampleCatalog 1 ''gpt-4'' ModelCatalogStatusInit 60) = ModelCatalogStatusInit"
    using upsertCatalog_monotonic [of ?init "chatModel ''GPT 4''"
        "exampleCatalog 1 ''gpt-4'' ModelCatalogStatusInit 60" exampleEnv ProviderOpenAI
        "exampleCatalog 1 ''gpt-4'' ModelCatalogStatusFilled 60"] found' changed
    by blast
  have s3: "Status (exampleCatalog 1 ''gpt-4'' ModelCatalogStatusFilled 60) \<noteq> ModelCatalogStatusInit"
    by (simp add: exampleCatalog_def)
  have r3: "exampleCatalog 1 ''gpt-4'' ModelCatalogStatusFilled 60 \<in>
     set (tbl_catalogs (snd (upsertCatalog exampleEnv ?filled ProviderOpenAI (chatModel ''GPT 5''))))"
    using upsertCatalog_monotonic [of ?filled "chatModel ''GPT 5''"
        "exampleCatalog 1 ''gpt-4'' ModelCatalogStatusFilled 60" exampleEnv ProviderOpenAI
        "exampleCatalog 1 ''gpt-4'' ModelCatalogStatusFilled 60"] rows s3
    by blast
  have d: "distinct (map Catalog_ID [exampleCatalog 1 ''gpt-4'' ModelCatalogStatusFilled 60])"
    by simp
  from found r1 found' rewritten d r3 show ?thesis
    by (intro conjI)
qed

lemma syncModelsFrom_append:
  "syncModelsFrom e provider results st (ms1 @ ms2) =
     (case syncModelsFrom e provider results st ms1 of
        (Inl err, st') \<Rightarrow> (Inl err, st')
      | (Inr results', st') \<Rightarrow> syncModelsFrom e provider results' st' ms2)"
  by (induction ms1 arbitrary: results st) (auto split: prod.splits sum.splits)

lemma Update_keeps_ids:
  "map Catalog_ID (map (\<lambda>q. if Catalog_ID q = Catalog_ID c then c else q) rows) =
   map Catalog_ID rows"
  by (induction rows) auto

lemma upsertCatalog_tables:
  assumes "upsertCatalog e st kind model = (r, st')"
  shows "tbl_providerModels st' = tbl_providerModels st \<and> tbl_providers st' = tbl_providers st \<and>
   set (map Catalog_ID (tbl_catalogs st)) \<subseteq> set (map Catalog_ID (tbl_catalogs st'))"
proof (cases "find (\<lambda>c. Catalog_PublicID c = catalogPublicID model) (tbl_catalogs st)")
  case None
  with assms show ?thesis
    by (auto simp: upsertCatalog_def Let_def modelCatalogRepo_FindByPublicID_def
        modelCatalogRepo_Create_def answer_def split: option.splits)
next
  case (Some ex)
  show ?thesis
  proof (cases "Status ex = ModelCatalogStatusFilled \<or> Status ex = ModelCatalogStatusUpdated")
    case True
    with Some assms show ?thesis
      by (auto simp: upsertCatalog_def Let_def modelCatalogRepo_FindByPublicID_def
          answer_def split: option.splits)
  next
    case False
    define c where "c = (buildModelCatalogFromModel e kind model)
        \<lparr>Catalog_PublicID := catalogPublicID model, Catalog_LastSyncedAt := Some (Now e),
         Catalog_ID := Catalog_ID ex, Catalog_CreatedAt := Catalog_CreatedAt ex\<rparr>"
    have "snd (upsertCatalog e st kind model) = st \<or>
        snd (upsertCatalog e st kind model) = st\<lparr>tbl_catalogs :=
           map (\<lambda>q. if Catalog_ID q = Catalog_ID c then c else q) (tbl_catalogs st)\<rparr>"
      using Some False
      by (simp add: upsertCatalog_def Let_def modelCatalogRepo_FindByPublicID_def
          modelCatalogRepo_Update_def answer_def c_def [symmetric] split: option.splits)
    with assms have "st' = st \<or> st' = st\<lparr>tbl_catalogs :=
          map (\<lambda>q. if Catalog_ID q = Catalog_ID c then c else q) (tbl_catalogs st)\<rparr>"
      by simp
    then show ?thesis
    proof
      assume "st' = st"
      then show ?thesis by simp
    next
      assume "st' = st\<lparr>tbl_catalogs :=
          map (\<lambda>q. if Catalog_ID q = Catalog_ID c then c else q) (tbl_catalogs st)\<rparr>"
      then show ?thesis
        using Update_keeps_ids [of c "tbl_catalogs st"] by simp
    qed
  qed
qed

lemma upsertProviderModel_failure:
  "upsertProviderModel e st provider catalog model = (Inl err, st') \<Longrightarrow>
   tbl_providerModels st' = tbl_providerModels st \<and> tbl_catalogs st' = tbl_catalogs st \<and>
   tbl_providers st' = tbl_providers st"
  by (auto simp: upsertProviderModel_def Let_def providerModelRepo_FindByFilter_def
      providerModelRepo_Update_def providerModelRepo_Create_def answer_def
      split: option.splits if_splits sum.splits)

text \<open>
  Every error return of \<open>upsertCatalog\<close> and \<open>upsertProviderModel\<close> is taken by some run:
  the three of the catalog (lookup, update of an \<open>init\<close> entry, creation) and the five of
  the provider model (blank key, lookup, update of an existing row, generation of the
  identifier, creation).
\<close>

lemma upsert_error_returns:
  "fst (upsertCatalog exampleEnv
          (exampleStore\<lparr>failing := [(Catalog_FindByPublicID ''a'', ''timeout'')]\<rparr>)
          ProviderOpenAI (chatModel ''a'')) =
     Inl (NewError ''timeout'' ''35248ec0-0c17-4b73-b2ff-67955ad9b671'')"
  "fst (upsertCatalog exampleEnv
          (exampleStore\<lparr>tbl_catalogs := [syncedCatalog 1 ''a''],
             failing := [(Catalog_Update 1, ''timeout'')]\<rparr>)
          ProviderOpenAI (chatModel ''a'')) =
     Inl (NewError ''timeout'' ''9f5f9694-1a35-4cb4-b01e-0d531831df6e'')"
  "fst (upsertCatalog exampleEnv
          (exampleStore\<lparr>failing := [(Catalog_Create ''a'', ''timeout'')]\<rparr>)
          ProviderOpenAI (chatModel ''a'')) =
     Inl (NewError ''timeout'' ''b3a1c6aa-0db5-4ef8-9f68-bebc56a149d9'')"
  "fst (upsertProviderModel exampleEnv exampleStore
          (registeredProvider 1 ''openai-team-a'' None ''openai'' [] None)
          (Some (syncedCatalog 1 [])) (chatModel '' '')) =
     Inl (NewErrorWithMessage ''model identifier missing''
            ''1c5c6609-6df1-41b0-8fd9-2fa337eb0050'')"
  "fst (upsertProviderModel exampleEnv
          (exampleStore\<lparr>failing := [(ProviderModel_FindByFilter (Some ''a''), ''timeout'')]\<rparr>)
          (registeredProvider 1 ''openai-team-a'' None ''openai'' [] None)
          (Some (syncedCatalog 1 ''a'')) (chatModel ''a'')) =
     Inl (NewError ''timeout'' ''5bcbced8-1a07-48cf-8b96-2d216af7ff58'')"
  "fst (upsertProviderModel exampleEnv
          (exampleStore\<lparr>tbl_providerModels := [exampleProviderModel 1 1 1 ''a''],
             failing := [(ProviderModel_Update 1, ''timeout'')]\<rparr>)
          (registeredProvider 1 ''openai-team-a'' None ''openai'' [] None)
          (Some (syncedCatalog 1 ''a'')) (chatModel ''a'')) =
     Inl (NewError ''timeout'' ''19a79680-ae69-4b71-9be3-daa13cbbef16'')"
  "fst (upsertProviderModel failingEnv exampleStore
          (registeredProvider 1 ''openai-team-a'' None ''openai'' [] None)
          (Some (syncedCatalog 1 ''a'')) (chatModel ''a'')) =
     Inl (NewError ''unexpected EOF'' ''62e9b0fb-a7f6-435c-9436-955f57843c73'')"
  "fst (upsertProviderModel exampleEnv
          (exampleStore\<lparr>failing := [(ProviderModel_Create ''a'', ''timeout'')]\<rparr>)
          (registeredProvider 1 ''openai-team-a'' None ''openai'' [] None)
          (Some (syncedCatalog 1 ''a'')) (chatModel ''a'')) =
     Inl (NewError ''timeout'' ''2f0d0864-d0b0-4f4c-90c5-5e4eb2c451e5'')"
  by code_simp+

text \<open>
  C6, as the code has it. \<open>syncModels\<close> stops at the first model whose catalog or
  provider-model upsert fails, whatever the error, and returns that error: the models after
  it are not processed. Nothing is rolled back: the store returned is the one the failing
  step left, with the provider-model rows and the catalog identifiers written for the
  earlier models.
\<close>

theorem syncModels_stops_at_first_failure:
  assumes earlier: "syncModels e st provider ms1 = (Inr results, st1)"
    and failure:
      "upsertCatalog e st1 (Kind provider) m = (Inl err, st2) \<or>
       (\<exists>catalog st'. upsertCatalog e st1 (Kind provider) m = (Inr catalog, st') \<and>
          upsertProviderModel e st' provider (Some catalog) m = (Inl err, st2))"
  shows "syncModels e st provider (ms1 @ m # ms2) = (Inl err, st2) \<and>
         tbl_providerModels st2 = tbl_providerModels st1 \<and>
         set (map Catalog_ID (tbl_catalogs st1)) \<subseteq> set (map Catalog_ID (tbl_catalogs st2))"
proof -
  have step: "syncModelsFrom e provider results st1 (m # ms2) = (Inl err, st2)"
    using failure by auto
  have 1: "syncModels e st provider (ms1 @ m # ms2) = (Inl err, st2)"
    using earlier step by (simp add: syncModels_def syncModelsFrom_append)
  from failure have 2: "tbl_providerModels st2 = tbl_providerModels st1 \<and>
      set (map Catalog_ID (tbl_catalogs st1)) \<subseteq> set (map Catalog_ID (tbl_catalogs st2))"
  proof
    assume "upsertCatalog e st1 (Kind provider) m = (Inl err, st2)"
    from upsertCatalog_tables [OF this] show ?thesis by simp
  next
    assume "\<exists>catalog st'. upsertCatalog e st1 (Kind provider) m = (Inr catalog, st') \<and>
          upsertProviderModel e st' provider (Some catalog) m = (Inl err, st2)"
    then obtain catalog st' where
      c: "upsertCatalog e st1 (Kind provider) m = (Inr catalog, st')" and
      p: "upsertProviderModel e st' provider (Some catalog) m = (Inl err, st2)" by blast
    from upsertCatalog_tables [OF c] upsertProviderModel_failure [OF p] show ?thesis by simp
  qed
  from 1 2 show ?thesis by simp
qed

lemma syncModels_example:
  "syncModels exampleEnv flakyStore
     (registeredProvider 1 ''openai-team-a'' None ''openai'' [] None) [chatModel ''a''] =
   (Inr [\<lparr>SR_ProviderModel = exampleProviderModel 1 1 1 ''a'',
          SR_Catalog = syncedCatalog 1 ''a''\<rparr>],
    flakyStore\<lparr>tbl_providerModels := [exampleProviderModel 1 1 1 ''a''],
      tbl_catalogs := [syncedCatalog 1 ''a''], drawn := 2\<rparr>)"
  by code_simp

lemma upsertCatalog_refused_example:
  "upsertCatalog exampleEnv
     (flakyStore\<lparr>tbl_providerModels := [exampleProviderModel 1 1 1 ''a''],
        tbl_catalogs := [syncedCatalog 1 ''a''], drawn := 2\<rparr>)
     (Kind (registeredProvider 1 ''openai-team-a'' None ''openai'' [] None)) (chatModel ''b'') =
   (Inl (NewError ''connection refused'' ''b3a1c6aa-0db5-4ef8-9f68-bebc56a149d9''),
    flakyStore\<lparr>tbl_providerModels := [exampleProviderModel 1 1 1 ''a''],
      tbl_catalogs := [syncedCatalog 1 ''a''], drawn := 2\<rparr>)"
  by code_simp

lemma upsertProviderModel_deadlock_example:
  "upsertCatalog exampleEnv
     (flakyStore\<lparr>tbl_providerModels := [exampleProviderModel 1 1 1 ''a''],
        tbl_catalogs := [syncedCatalog 1 ''a''], drawn := 2\<rparr>)
     (Kind (registeredProvider 1 ''openai-team-a'' None ''openai'' [] None)) (chatModel ''c'') =
   (Inr (syncedCatalog 2 ''c''),
    flakyStore\<lparr>tbl_providerModels := [exampleProviderModel 1 1 1 ''a''],
      tbl_catalogs := [syncedCatalog 1 ''a'', syncedCatalog 2 ''c''], drawn := 2\<rparr>)"
  "upsertProviderModel exampleEnv
     (flakyStore\<lparr>tbl_providerModels := [exampleProviderModel 1 1 1 ''a''],
        tbl_catalogs := [syncedCatalog 1 ''a'', syncedCatalog 2 ''c''], drawn := 2\<rparr>)
     (registeredProvider 1 ''openai-team-a'' None ''openai'' [] None)
     (Some (syncedCatalog 2 ''c'')) (chatModel ''c'') =
   (Inl (NewError ''deadlock detected'' ''2f0d0864-d0b0-4f4c-90c5-5e4eb2c451e5''),
    flakyStore\<lparr>tbl_providerModels := [exampleProviderModel 1 1 1 ''a''],
      tbl_catalogs := [syncedCatalog 1 ''a'', syncedCatalog 2 ''c''], drawn := 3\<rparr>)"
  by code_simp+

theorem syncModels_stops_at_first_failure_witness:
  "syncModels exampleEnv flakyStore
     (registeredProvider 1 ''openai-team-a'' None ''openai'' [] None) [chatModel ''a''] =
   (Inr [\<lparr>SR_ProviderModel = exampleProviderModel 1 1 1 ''a'',
          SR_Catalog = syncedCatalog 1 ''a''\<rparr>],
    flakyStore\<lparr>tbl_providerModels := [exampleProviderModel 1 1 1 ''a''],
      tbl_catalogs := [syncedCatalog 1 ''a''], drawn := 2\<rparr>) \<and>
   syncModels exampleEnv flakyStore
     (registeredProvider 1 ''openai-team-a'' None ''openai'' [] None)
     ([chatModel ''a''] @ chatModel ''b'' # [chatModel ''c'']) =
   (Inl (NewError ''connection refused'' ''b3a1c6aa-0db5-4ef8-9f68-bebc56a149d9''),
    flakyStore\<lparr>tbl_providerModels := [exampleProviderModel 1 1 1 ''a''],
      tbl_catalogs := [syncedCatalog 1 ''a''], drawn := 2\<rparr>) \<and>
   syncModels exampleEnv flakyStore
     (registeredProvider 1 ''openai-team-a'' None ''openai'' [] None)
     ([chatModel ''a''] @ chatModel ''c'' # [chatModel ''b'']) =
   (Inl (NewError ''deadlock detected'' ''2f0d0864-d0b0-4f4c-90c5-5e4eb2c451e5''),
    flakyStore\<lparr>tbl_providerModels := [exampleProviderModel 1 1 1 ''a''],
      tbl_catalogs := [syncedCatalog 1 ''a'', syncedCatalog 2 ''c''], drawn := 3\<rparr>)"
proof -
  have catalog_fails:
    "syncModels exampleEnv flakyStore
       (registeredProvider 1 ''openai-team-a'' None ''openai'' [] None)
       ([chatModel ''a''] @ chatModel ''b'' # [chatModel ''c'']) =
     (Inl (NewError ''connection refused'' ''b3a1c6aa-0db5-4ef8-9f68-bebc56a149d9''),
      flakyStore\<lparr>tbl_providerModels := [exampleProviderModel 1 1 1 ''a''],
        tbl_catalogs := [syncedCatalog 1 ''a''], drawn := 2\<rparr>)"
    by (rule syncModels_stops_at_first_failure
          [OF syncModels_example disjI1, OF upsertCatalog_refused_example, THEN conjunct1])
  have "\<exists>catalog st'.
      upsertCatalog exampleEnv
        (flakyStore\<lparr>tbl_providerModels := [exampleProviderModel 1 1 1 ''a''],
           tbl_catalogs := [syncedCatalog 1 ''a''], drawn := 2\<rparr>)
        (Kind (registeredProvider 1 ''openai-team-a'' None ''openai'' [] None))
        (chatModel ''c'') = (Inr catalog, st') \<and>
      upsertProviderModel exampleEnv st'
        (registeredProvider 1 ''openai-team-a'' None ''openai'' [] None) (Some catalog)
        (chatModel ''c'') =
      (Inl (NewError ''deadlock detected'' ''2f0d0864-d0b0-4f4c-90c5-5e4eb2c451e5''),
       flakyStore\<lparr>tbl_providerModels := [exampleProviderModel 1 1 1 ''a''],
         tbl_catalogs := [syncedCatalog 1 ''a'', syncedCatalog 2 ''c''], drawn := 3\<rparr>)"
    using upsertProviderModel_deadlock_example by blast
  then have provider_model_fails:
    "syncModels exampleEnv flakyStore
       (registeredProvider 1 ''openai-team-a'' None ''openai'' [] None)
       ([chatModel ''a''] @ chatModel ''c'' # [chatModel ''b'']) =
     (Inl (NewError ''deadlock detected'' ''2f0d0864-d0b0-4f4c-90c5-5e4eb2c451e5''),
      flakyStore\<lparr>tbl_providerModels := [exampleProviderModel 1 1 1 ''a''],
        tbl_catalogs := [syncedCatalog 1 ''a'', syncedCatalog 2 ''c''], drawn := 3\<rparr>)"
    by (rule syncModels_stops_at_first_failure
          [OF syncModels_example disjI2, THEN conjunct1])
  from syncModels_example catalog_fails provider_model_fails show ?thesis
    by (intro conjI)
qed

text \<open>
  C6 does not hold as stated: a failure other than a missing model key ends the batch as
  well. The generator of identifiers fails for the provider model of \<open>a\<close>; \<open>syncModels\<close>
  returns that error with the catalog of \<open>a\<close> written, and \<open>b\<close>, which syncs without
  error from that store, has been given neither a catalog nor a provider model.
\<close>

theorem syncModels_abort_counterexample:
  "syncModels failingEnv exampleStore
     (registeredProvider 1 ''openai-team-a'' None ''openai'' [] None)
     [chatModel ''a'', chatModel ''b''] =
   (Inl (NewError ''unexpected EOF'' ''62e9b0fb-a7f6-435c-9436-955f57843c73''),
    exampleStore\<lparr>tbl_catalogs := [syncedCatalog 1 ''a''], drawn := 2\<rparr>) \<and>
   fst (syncModels failingEnv
          (exampleStore\<lparr>tbl_catalogs := [syncedCatalog 1 ''a''], drawn := 2\<rparr>)
          (registeredProvider 1 ''openai-team-a'' None ''openai'' [] None) [chatModel ''b'']) =
   Inr [\<lparr>SR_ProviderModel = (exampleProviderModel 1 1 2 ''b'')\<lparr>PM_PublicID := ''pmdl_2''\<rparr>,
         SR_Catalog = syncedCatalog 2 ''b''\<rparr>]"
  by code_simp






lemma ListAccessibleProviders_answered:
  "ListAccessibleProviders e st org pids = Inr L \<Longrightarrow> answers st Provider_FindByFilter"
  by (cases "map_of (failing st) Provider_FindByFilter")
    (auto simp: ListAccessibleProviders_def Let_def providerRepo_FindByFilter_def answer_def
      answers_def split: if_splits)








lemma upsertProviderModel_keys:
  assumes "\<forall>pm\<in>set (tbl_providerModels st). TrimSpace (ModelKey pm) \<noteq> []"
  shows "\<forall>pm\<in>set (tbl_providerModels (snd (upsertProviderModel e st provider catalog model))).
           TrimSpace (ModelKey pm) \<noteq> []"
proof (cases "TrimSpace (ChatModel_ID model) = []")
  case True
  with assms show ?thesis by (simp add: upsertProviderModel_def)
next
  case False
  define ex where "ex = filter (matchesProviderModel
      (ProviderModelFilter0\<lparr>F_ProviderID := Some (Provider_ID provider),
         F_ModelKey := Some (TrimSpace (ChatModel_ID model))\<rparr>)) (tbl_providerModels st)"
  have hd: "TrimSpace (ModelKey (hd (take 1 ex))) \<noteq> []" if "ex \<noteq> []"
  proof -
    from that have "hd (take 1 ex) \<in> set ex" by (cases ex) simp_all
    with assms show ?thesis by (simp add: ex_def)
  qed
  show ?thesis
    using False assms hd
    by (auto simp: upsertProviderModel_def Let_def providerModelRepo_FindByFilter_def
        providerModelRepo_Update_def providerModelRepo_Create_def answer_def paginate_def
        updateProviderModelFromRaw_def buildProviderModelFromRaw_def ex_def [symmetric]
        split: option.splits sum.splits if_splits)
qed



text \<open>
  C8. A completion request that binds and has an empty message list is answered with
  status 400 and \<open>messages cannot be empty\<close>, and the handler does nothing else: no
  provider is resolved and no call is sent to a backend, whether the request streams or
  not.
\<close>

theorem PostCompletion_empty_messages:
  assumes "ShouldBindJSON svc (ctx_body reqCtx) = Inr request"
    and "Messages request = []"
  shows "PostCompletion svc e st reqCtx =
           [AbortWithStatusJSON StatusBadRequest
              \<lparr>Code = ''0199600f-2cbe-7518-be5c-9989cce59472'',
               Error = ''messages cannot be empty'', ErrorInstance = None\<rparr>] \<and>
         StatusBadRequest = 400"
  using assms by (simp add: PostCompletion_def StatusBadRequest_def)

theorem PostCompletion_empty_messages_witness:
  "PostCompletion exampleServices exampleEnv sharedStore (exampleContext ''no messages'') =
     [AbortWithStatusJSON 400
        \<lparr>Code = ''0199600f-2cbe-7518-be5c-9989cce59472'',
         Error = ''messages cannot be empty'', ErrorInstance = None\<rparr>] \<and>
   PostCompletion exampleServices exampleEnv sharedStore
     (exampleContext ''no messages, stream'') =
     [AbortWithStatusJSON 400
        \<lparr>Code = ''0199600f-2cbe-7518-be5c-9989cce59472'',
         Error = ''messages cannot be empty'', ErrorInstance = None\<rparr>]"
proof -
  have bound: "ShouldBindJSON exampleServices (ctx_body (exampleContext ''no messages'')) =
      Inr \<lparr>Req_Model = ''shared'', Messages = [], Stream = False\<rparr>"
    "ShouldBindJSON exampleServices (ctx_body (exampleContext ''no messages, stream'')) =
      Inr \<lparr>Req_Model = ''shared'', Messages = [], Stream = True\<rparr>"
    by code_simp+
  have empty: "Messages \<lparr>Req_Model = ''shared'', Messages = [], Stream = False\<rparr> = []"
    "Messages \<lparr>Req_Model = ''shared'', Messages = [], Stream = True\<rparr> = []"
    by simp_all
  from PostCompletion_empty_messages [OF bound(1) empty(1), of exampleEnv sharedStore]
    PostCompletion_empty_messages [OF bound(2) empty(2), of exampleEnv sharedStore]
  show ?thesis by simp
qed

lemma siftLeft_mset:
  "mset (siftLeft lt x ys) = add_mset x (mset ys)"
  by (induction ys) auto

lemma fold_siftLeft_mset:
  "mset (fold (siftLeft lt) xs acc) = mset xs + mset acc"
  by (induction xs arbitrary: acc) (simp_all add: siftLeft_mset)

lemma sortSlice_mset:
  "mset (sortSlice lt xs) = mset xs"
  by (simp add: sortSlice_def fold_siftLeft_mset)

lemma siftLeft_set:
  "set (siftLeft lt x ys) = insert x (set ys)"
  using siftLeft_mset [of lt x ys, THEN arg_cong, of set_mset] by simp

lemma siftLeft_sorted:
  fixes key :: "'a \<Rightarrow> 'k::linorder"
  assumes "\<forall>y\<in>set ys. lt x y \<longleftrightarrow> key x < key y"
    and "sorted (rev (map key ys))"
  shows "sorted (rev (map key (siftLeft lt x ys)))"
  using assms
proof (induction ys)
  case Nil
  then show ?case by simp
next
  case (Cons y ys)
  from Cons.prems(2) have tail: "sorted (rev (map key ys))" and
    below: "\<forall>z\<in>set ys. key z \<le> key y"
    by (auto simp: sorted_append)
  show ?case
  proof (cases "lt x y")
    case True
    with Cons.prems(1) have "key x < key y" by simp
    moreover have "sorted (rev (map key (siftLeft lt x ys)))"
      using Cons.IH Cons.prems(1) tail by simp
    ultimately show ?thesis
      using True below by (auto simp: sorted_append siftLeft_set)
  next
    case False
    with Cons.prems(1) have "key y \<le> key x" by auto
    with False Cons.prems(2) below show ?thesis
      by (auto simp: sorted_append intro: order_trans)
  qed
qed

lemma fold_siftLeft_sorted:
  fixes key :: "'a \<Rightarrow> 'k::linorder"
  assumes "\<forall>a\<in>set xs \<union> set acc. \<forall>b\<in>set xs \<union> set acc. lt a b \<longleftrightarrow> key a < key b"
    and "sorted (rev (map key acc))"
  shows "sorted (rev (map key (fold (siftLeft lt) xs acc)))"
  using assms
proof (induction xs arbitrary: acc)
  case Nil
  then show ?case by simp
next
  case (Cons x xs)
  have "sorted (rev (map key (siftLeft lt x acc)))"
    using Cons.prems by (intro siftLeft_sorted) auto
  moreover have "\<forall>a\<in>set xs \<union> set (siftLeft lt x acc). \<forall>b\<in>set xs \<union> set (siftLeft lt x acc).
      lt a b \<longleftrightarrow> key a < key b"
    using Cons.prems(1) by (simp add: siftLeft_set)
  ultimately show ?case
    using Cons.IH [of "siftLeft lt x acc"] by simp
qed

lemma sortSlice_sorted:
  fixes key :: "'a \<Rightarrow> 'k::linorder"
  assumes "\<forall>a\<in>set xs. \<forall>b\<in>set xs. lt a b \<longleftrightarrow> key a < key b"
  shows "sorted (map key (sortSlice lt xs))"
  using fold_siftLeft_sorted [of xs "[]" lt key] assms
  by (simp add: sortSlice_def rev_map)

lemma getScopeOrder_values:
  "getScopeOrder ''jan'' = 0" "getScopeOrder ''organization'' = 1"
  "getScopeOrder ''project'' = 2"
  by code_simp+

lemma summaryOf_scope:
  "Scope (summaryOf projectPublicIDs p) =
     (if ProjectID p \<noteq> None then ''project''
      else if OrganizationID p = None then ''jan'' else ''organization'')"
  by (simp add: summaryOf_def split: option.splits)

lemma lessSummary_key:
  "lessSummary (summaryOf m p) (summaryOf m q) \<longleftrightarrow>
     (getScopeOrder (Scope (summaryOf m p)), S_Name (summaryOf m p)) <
     (getScopeOrder (Scope (summaryOf m q)), S_Name (summaryOf m q))"
  by (simp add: lessSummary_def summaryOf_scope getScopeOrder_values less_prod_def)

text \<open>
  C9, as the code has it. The listing answers with the summaries of the accessible
  providers, each once and each tagged \<open>project\<close> when the provider has a project, \<open>jan\<close>
  when it has neither project nor organization, and \<open>organization\<close> otherwise. They are
  sorted by the rank of the scope, \<open>jan\<close> before \<open>organization\<close> before \<open>project\<close>, and by
  name within the same scope.
\<close>

theorem listProviders_sorted:
  assumes "ResolveAccessibleProviders svc e st reqCtx = Inr (projectPublicIDs, providers)"
  shows "\<exists>listed. listProviders svc e st reqCtx =
             [JSON StatusOK (ProvidersList \<lparr>Object = ''list'', Data = listed\<rparr>)] \<and>
           mset listed = mset (map (summaryOf projectPublicIDs) providers) \<and>
           sorted (map (\<lambda>s. (getScopeOrder (Scope s), S_Name s)) listed) \<and>
           (\<forall>p\<in>set providers.
              Scope (summaryOf projectPublicIDs p) =
                (if ProjectID p \<noteq> None then ''project''
                 else if OrganizationID p = None then ''jan'' else ''organization'')) \<and>
           getScopeOrder ''jan'' < getScopeOrder ''organization'' \<and>
           getScopeOrder ''organization'' < getScopeOrder ''project''"
proof -
  define listed where
    "listed = sortSlice lessSummary (map (summaryOf projectPublicIDs) providers)"
  have response: "listProviders svc e st reqCtx =
      [JSON StatusOK (ProvidersList \<lparr>Object = ''list'', Data = listed\<rparr>)]"
    using assms by (simp add: listProviders_def listed_def)
  have each: "mset listed = mset (map (summaryOf projectPublicIDs) providers)"
    unfolding listed_def by (rule sortSlice_mset)
  have ordered: "sorted (map (\<lambda>s. (getScopeOrder (Scope s), S_Name s)) listed)"
    unfolding listed_def
    by (rule sortSlice_sorted) (auto simp: lessSummary_key)
  have tagged: "\<forall>p\<in>set providers.
      Scope (summaryOf projectPublicIDs p) =
        (if ProjectID p \<noteq> None then ''project''
         else if OrganizationID p = None then ''jan'' else ''organization'')"
    by (simp add: summaryOf_scope)
  have ranks: "getScopeOrder ''jan'' < getScopeOrder ''organization''"
    "getScopeOrder ''organization'' < getScopeOrder ''project''"
    by (simp_all add: getScopeOrder_values)
  from response each ordered tagged ranks show ?thesis by blast
qed

lemma ResolveAccessibleProviders_example:
  "ResolveAccessibleProviders exampleServices exampleEnv listingStore (exampleContext []) =
     Inr ([(7, ''proj_7'')],
          [(registeredProvider 2 ''custom-alpha'' (Some 7) ''custom'' [] None)\<lparr>DisplayName := ''Alpha''\<rparr>,
           (registeredProvider 1 ''custom-beta'' None ''custom'' [] None)\<lparr>DisplayName := ''Beta''\<rparr>,
           (registeredProvider 3 ''custom-alpha-2'' None ''custom'' [] None)\<lparr>DisplayName := ''Alpha''\<rparr>])"
  by code_simp

lemma listProviders_example:
  "listProviders exampleServices exampleEnv listingStore (exampleContext []) =
     [JSON StatusOK (ProvidersList \<lparr>Object = ''list'', Data =
        [exampleSummary 3 ''custom-alpha-2'' ''Alpha'' ''organization'' None,
         exampleSummary 1 ''custom-beta'' ''Beta'' ''organization'' None,
         exampleSummary 2 ''custom-alpha'' ''Alpha'' ''project'' (Some ''proj_7'')]\<rparr>)]"
  by code_simp

theorem listProviders_sorted_witness:
  "listProviders exampleServices exampleEnv listingStore (exampleContext []) =
     [JSON StatusOK (ProvidersList \<lparr>Object = ''list'', Data =
        [exampleSummary 3 ''custom-alpha-2'' ''Alpha'' ''organization'' None,
         exampleSummary 1 ''custom-beta'' ''Beta'' ''organization'' None,
         exampleSummary 2 ''custom-alpha'' ''Alpha'' ''project'' (Some ''proj_7'')]\<rparr>)] \<and>
   sorted (map (\<lambda>s. (getScopeOrder (Scope s), S_Name s))
     [exampleSummary 3 ''custom-alpha-2'' ''Alpha'' ''organization'' None,
      exampleSummary 1 ''custom-beta'' ''Beta'' ''organization'' None,
      exampleSummary 2 ''custom-alpha'' ''Alpha'' ''project'' (Some ''proj_7'')])"
proof -
  from listProviders_sorted [OF ResolveAccessibleProviders_example]
  obtain listed where
    "listProviders exampleServices exampleEnv listingStore (exampleContext []) =
       [JSON StatusOK (ProvidersList \<lparr>Object = ''list'', Data = listed\<rparr>)]" and
    ordered: "sorted (map (\<lambda>s. (getScopeOrder (Scope s), S_Name s)) listed)"
    by blast
  with listProviders_example have "listed =
      [exampleSummary 3 ''custom-alpha-2'' ''Alpha'' ''organization'' None,
       exampleSummary 1 ''custom-beta'' ''Beta'' ''organization'' None,
       exampleSummary 2 ''custom-alpha'' ''Alpha'' ''project'' (Some ''proj_7'')]"
    by simp
  with ordered listProviders_example show ?thesis by simp
qed

text \<open>
  C9 does not hold as stated: the project-scoped providers come last, not first. The
  caller, a member of project 7, has access to the project-scoped provider 2 and to the
  organization-scoped provider 1, of the same name; the listing puts provider 1 first.
\<close>

theorem listProviders_project_last_counterexample:
  "listProviders exampleServices exampleEnv sharedStore (exampleContext []) =
     [JSON StatusOK (ProvidersList \<lparr>Object = ''list'', Data =
        [exampleSummary 1 ''custom-p1'' ''Team A'' ''organization'' None,
         exampleSummary 2 ''custom-p2'' ''Team A'' ''project'' (Some ''proj_7'')]\<rparr>)] \<and>
   ListAccessibleProviders exampleEnv sharedStore 1 [7] =
     Inr [registeredProvider 2 ''custom-p2'' (Some 7) ''custom'' [] None,
          registeredProvider 1 ''custom-p1'' None ''custom'' [] None]"
  by code_simp

end
